theory Spec2Isabelle
  imports Main "HOL-Library.Char_ord" "HOL-Library.List_Lexorder" "HOL-Library.Option_ord"
begin

section \<open>The ShootUp API over a document store\<close>

text \<open>
  The source is \<^verbatim>\<open>main.py\<close>: request handlers that read and write five collections of a
  document store (\<^verbatim>\<open>event\<close>, \<^verbatim>\<open>media\<close>, \<^verbatim>\<open>comment\<close>, \<^verbatim>\<open>like\<close>, \<^verbatim>\<open>userprofile\<close>) through a
  module-level handle \<^verbatim>\<open>db\<close> that is \<^verbatim>\<open>None\<close> when the store is not configured.

  Each handler becomes a function from the handle (\<open>Store option\<close>) and the request to a
  pair: the outcome (\<open>Inl\<close> an exception, \<open>Inr\<close> the returned document) and the handle
  after the call. A collection is the list of its documents in insertion order.
  \<^verbatim>\<open>serialize_doc\<close> renders identifiers and timestamps as text; an identifier is kept here
  in its textual form already, so a returned document is the stored record.
\<close>

subsection \<open>Exceptions\<close>

text \<open>
  \<^verbatim>\<open>HTTPException(status_code, detail)\<close> is what the handlers raise themselves.
  \<open>TypeError\<close> is Python's answer to \<^verbatim>\<open>db["media"]\<close> when \<^verbatim>\<open>db\<close> is \<^verbatim>\<open>None\<close>, and
  \<open>AttributeError\<close> its answer to \<^verbatim>\<open>serialize_doc(None)\<close>.
\<close>

datatype error = HTTPException int string | TypeError | AttributeError

subsection \<open>Identifiers\<close>

text \<open>
  An identifier is a sequence of bytes, twelve when the driver generates it; \<^verbatim>\<open>str\<close> of
  an identifier is its lower-case hexadecimal form, and an identifier is kept as that
  string. \<^verbatim>\<open>ObjectId(s)\<close> takes a string of 24 characters and reads it with
  \<^verbatim>\<open>bytes.fromhex\<close>, which wants two hexadecimal digits per byte, in either case, and
  skips ASCII whitespace before a byte and at the end; it raises on any other string. A
  string with whitespace is so accepted and gives an identifier of fewer than twelve bytes.
\<close>

datatype ObjectId = ObjectId string

fun str_oid :: "ObjectId \<Rightarrow> string" where
  "str_oid (ObjectId s) = s"

definition is_hexdigit :: "char \<Rightarrow> bool" where
  "is_hexdigit c = (c \<in> set ''0123456789abcdefABCDEF'')"

definition lower_char :: "char \<Rightarrow> char" where
  "lower_char c =
     (let n = (of_char c :: nat) in if 65 \<le> n \<and> n \<le> 90 then char_of (n + 32) else c)"

definition upper_char :: "char \<Rightarrow> char" where
  "upper_char c =
     (let n = (of_char c :: nat) in if 97 \<le> n \<and> n \<le> 122 then char_of (n - 32) else c)"

text \<open>\<^verbatim>\<open>str.upper()\<close>, on the ASCII letters.\<close>

definition upper :: "string \<Rightarrow> string" where
  "upper s = map upper_char s"

text \<open>The ASCII whitespace: tab, line feed, vertical tab, form feed, carriage return, space.\<close>

definition is_space :: "char \<Rightarrow> bool" where
  "is_space c = (let n = (of_char c :: nat) in (9 \<le> n \<and> n \<le> 13) \<or> n = 32)"

text \<open>
  \<^verbatim>\<open>bytes.fromhex(s)\<close>, returning the hexadecimal digits of the bytes read; \<open>None\<close>
  stands for the raised \<^verbatim>\<open>ValueError\<close>.
\<close>

fun fromhex :: "string \<Rightarrow> string option" where
  "fromhex [] = Some []"
| "fromhex [c] = (if is_space c then Some [] else None)"
| "fromhex (c # d # cs) =
     (if is_space c then fromhex (d # cs)
      else if is_hexdigit c \<and> is_hexdigit d then map_option (\<lambda>r. c # d # r) (fromhex cs)
      else None)"

text \<open>\<^verbatim>\<open>ObjectId(s)\<close>: \<open>None\<close> stands for the raised \<^verbatim>\<open>InvalidId\<close>.\<close>

definition ObjectId_parse :: "string \<Rightarrow> ObjectId option" where
  "ObjectId_parse s =
     (if length s = 24
      then (case fromhex s of
              None \<Rightarrow> None
            | Some digits \<Rightarrow> Some (ObjectId (map lower_char digits)))
      else None)"

subsection \<open>Documents\<close>

text \<open>
  A field that the source reads with \<^verbatim>\<open>.get\<close> (so that it may be missing) is an
  \<open>option\<close>; so is a field that holds \<^verbatim>\<open>None\<close>. \<open>created_at\<close> is the field the
  cursors sort on.
\<close>

record Event =
  e_id :: ObjectId
  e_code :: string
  e_title :: string
  e_date_iso :: "string option"
  e_location :: "string option"
  e_access :: string
  e_cover_url :: "string option"
  e_participants :: "string list option"
  e_challenges :: "string list"
  e_ended :: bool
  e_created_at :: "nat option"

record Media =
  m_id :: ObjectId
  m_event_id :: string
  m_user_id :: string
  m_url :: string
  m_media_type :: string
  m_challenge :: "string option"
  m_likes_count :: "int option"
  m_comments_count :: "int option"
  m_created_at :: "nat option"

record Comment =
  c_id :: ObjectId
  c_media_id :: string
  c_user_id :: string
  c_text :: string
  c_created_at :: "nat option"

record Like =
  l_id :: ObjectId
  l_media_id :: string
  l_user_id :: string

record Userprofile =
  u_id :: "ObjectId option"
  u_user_id :: string
  u_username :: "string option"
  u_avatar_url :: "string option"
  u_bio :: "string option"
  u_following_events :: "string list option"

record Store =
  db_event :: "Event list"
  db_media :: "Media list"
  db_comment :: "Comment list"
  db_like :: "Like list"
  db_userprofile :: "Userprofile list"

subsection \<open>Request bodies\<close>

record CreateEvent =
  ce_title :: string
  ce_date_iso :: "string option"
  ce_location :: "string option"
  ce_access :: string
  ce_cover_url :: "string option"
  ce_challenges :: "string list"

record JoinEvent =
  je_code :: string
  je_user_id :: string
  je_username :: "string option"

record UploadMedia =
  um_event_id :: string
  um_user_id :: string
  um_url :: string
  um_media_type :: string
  um_challenge :: "string option"

record ToggleLike =
  tl_user_id :: string

record AddComment =
  ac_user_id :: string
  ac_text :: string

record UpdateUser =
  uu_username :: "string option"
  uu_avatar_url :: "string option"
  uu_bio :: "string option"

subsection \<open>Collection operations\<close>

text \<open>
  \<^verbatim>\<open>find_one\<close> returns the first matching document, \<^verbatim>\<open>update_one\<close> and
  \<^verbatim>\<open>delete_one\<close> act on the first matching document, \<^verbatim>\<open>insert_one\<close> appends. The
  identifier of an inserted document is generated by the driver; it is an argument of
  every handler that inserts.
\<close>

definition find_one :: "('a \<Rightarrow> bool) \<Rightarrow> 'a list \<Rightarrow> 'a option" where
  "find_one P xs = List.find P xs"

definition find_all :: "('a \<Rightarrow> bool) \<Rightarrow> 'a list \<Rightarrow> 'a list" where
  "find_all P xs = filter P xs"

definition count_documents :: "('a \<Rightarrow> bool) \<Rightarrow> 'a list \<Rightarrow> nat" where
  "count_documents P xs = length (filter P xs)"

definition insert_one :: "'a \<Rightarrow> 'a list \<Rightarrow> 'a list" where
  "insert_one d xs = xs @ [d]"

fun update_one :: "('a \<Rightarrow> bool) \<Rightarrow> ('a \<Rightarrow> 'a) \<Rightarrow> 'a list \<Rightarrow> 'a list" where
  "update_one P g [] = []"
| "update_one P g (x # xs) = (if P x then g x # xs else x # update_one P g xs)"

fun delete_one :: "('a \<Rightarrow> bool) \<Rightarrow> 'a list \<Rightarrow> 'a list" where
  "delete_one P [] = []"
| "delete_one P (x # xs) = (if P x then xs else x # delete_one P xs)"

text \<open>
  \<^verbatim>\<open>cursor.sort(key, 1)\<close> and \<^verbatim>\<open>cursor.sort(key, -1)\<close>: an insertion sort under the
  given comparison, in which documents with equal keys keep the order of the collection.
  A missing key is \<open>None\<close>, below every value.
\<close>

fun insort_by :: "('a \<Rightarrow> 'a \<Rightarrow> bool) \<Rightarrow> 'a \<Rightarrow> 'a list \<Rightarrow> 'a list" where
  "insort_by le x [] = [x]"
| "insort_by le x (y # ys) = (if le x y then x # y # ys else y # insort_by le x ys)"

definition sort_by :: "('a \<Rightarrow> 'a \<Rightarrow> bool) \<Rightarrow> 'a list \<Rightarrow> 'a list" where
  "sort_by le xs = foldr (insort_by le) xs []"

definition sort_asc :: "('a \<Rightarrow> 'k::linorder) \<Rightarrow> 'a list \<Rightarrow> 'a list" where
  "sort_asc key xs = sort_by (\<lambda>a b. key a \<le> key b) xs"

definition sort_desc :: "('a \<Rightarrow> 'k::linorder) \<Rightarrow> 'a list \<Rightarrow> 'a list" where
  "sort_desc key xs = sort_by (\<lambda>a b. key b \<le> key a) xs"

text \<open>\<^verbatim>\<open>cursor.limit(n)\<close>: 0 is no limit, a negative limit counts as its absolute value.\<close>

definition cursor_limit :: "int \<Rightarrow> 'a list \<Rightarrow> 'a list" where
  "cursor_limit n xs = (if n = 0 then xs else take (nat \<bar>n\<bar>) xs)"

text \<open>\<^verbatim>\<open>d.get(key, default)\<close>.\<close>

definition get_default :: "'a option \<Rightarrow> 'a \<Rightarrow> 'a" where
  "get_default v d = (case v of None \<Rightarrow> d | Some x \<Rightarrow> x)"

subsection \<open>Event handlers\<close>

definition alphabet :: string where
  "alphabet = ''ABCDEFGHIJKLMNOPQRSTUVWXYZ0123456789''"

text \<open>
  \<^verbatim>\<open>''.join(choices(alphabet, k=length))\<close>: \<^verbatim>\<open>choices\<close> takes, for each of the \<open>k\<close>
  positions, the element at index \<^verbatim>\<open>floor(random() * len(alphabet))\<close>. The random source
  is the argument \<open>rnd\<close>; its \<open>i\<close>-th draw is reduced to an index of the alphabet.
\<close>

definition generate_code :: "(nat \<Rightarrow> nat) \<Rightarrow> nat \<Rightarrow> string" where
  "generate_code rnd len = map (\<lambda>i. alphabet ! (rnd i mod length alphabet)) [0..<len]"

definition create_event ::
  "Store option \<Rightarrow> ObjectId \<Rightarrow> (nat \<Rightarrow> nat) \<Rightarrow> CreateEvent \<Rightarrow> (error + Event) \<times> Store option" where
  "create_event db new_id rnd payload =
     (case db of
        None \<Rightarrow> (Inl (HTTPException 500 ''Database not configured''), db)
      | Some s \<Rightarrow>
          let code = generate_code rnd 6;
              event_doc = \<lparr>e_id = new_id, e_code = code, e_title = ce_title payload,
                           e_date_iso = ce_date_iso payload, e_location = ce_location payload,
                           e_access = ce_access payload, e_cover_url = ce_cover_url payload,
                           e_participants = Some [], e_challenges = ce_challenges payload,
                           e_ended = False, e_created_at = None\<rparr>
          in (Inr event_doc, Some (s\<lparr>db_event := insert_one event_doc (db_event s)\<rparr>)))"

record EventItem =
  ei_event :: Event
  ei_participants_count :: nat
  ei_media_count :: nat

text \<open>The body of the loop of \<^verbatim>\<open>explore_events\<close>; an empty or missing cover is falsy.\<close>

definition explore_item :: "Store \<Rightarrow> Event \<Rightarrow> EventItem" where
  "explore_item s e =
     (let participants_count = length (get_default (e_participants e) []);
          media_count = count_documents (\<lambda>m. m_event_id m = str_oid (e_id e)) (db_media s);
          cover =
            (if e_cover_url e = None \<or> e_cover_url e = Some []
             then (case find_one (\<lambda>m. m_event_id m = str_oid (e_id e)) (db_media s) of
                     Some first_media \<Rightarrow> Some (m_url first_media)
                   | None \<Rightarrow> e_cover_url e)
             else e_cover_url e)
      in \<lparr>ei_event = e\<lparr>e_cover_url := cover\<rparr>,
          ei_participants_count = participants_count,
          ei_media_count = media_count\<rparr>)"

definition explore_events :: "Store option \<Rightarrow> int \<Rightarrow> (error + EventItem list) \<times> Store option" where
  "explore_events db limit =
     (case db of
        None \<Rightarrow> (Inl (HTTPException 500 ''Database not configured''), db)
      | Some s \<Rightarrow>
          let cursor = cursor_limit limit
                (sort_desc e_created_at (find_all (\<lambda>e. e_access e = ''public'') (db_event s)))
          in (Inr (map (explore_item s) cursor), db))"

text \<open>\<^verbatim>\<open>find_one({"code": code.upper()}) or find_one({"code": code})\<close>.\<close>

definition find_by_code :: "string \<Rightarrow> Event list \<Rightarrow> Event option" where
  "find_by_code code es =
     (case find_one (\<lambda>e. e_code e = upper code) es of
        Some e \<Rightarrow> Some e
      | None \<Rightarrow> find_one (\<lambda>e. e_code e = code) es)"

text \<open>
  \<^verbatim>\<open>participants = set(...); participants.add(user_id); list(participants)\<close>. The order
  in which Python lists a set is not specified; \<open>remdups\<close> is one listing of it.
\<close>

definition add_participant :: "string list \<Rightarrow> string \<Rightarrow> string list" where
  "add_participant ps user_id = remdups (ps @ [user_id])"

text \<open>
  \<^verbatim>\<open>update_one({"user_id": u}, {"$setOnInsert": {...}}, upsert=True)\<close>: an existing
  profile is left as it is.
\<close>

definition upsert_profile_on_join :: "ObjectId \<Rightarrow> JoinEvent \<Rightarrow> Userprofile list \<Rightarrow> Userprofile list" where
  "upsert_profile_on_join new_id payload ps =
     (case find_one (\<lambda>p. u_user_id p = je_user_id payload) ps of
        Some _ \<Rightarrow> ps
      | None \<Rightarrow>
          insert_one \<lparr>u_id = Some new_id, u_user_id = je_user_id payload,
                      u_username = Some (if je_username payload = None \<or> je_username payload = Some []
                                         then ''Guest'' else the (je_username payload)),
                      u_avatar_url = None, u_bio = None, u_following_events = Some []\<rparr> ps)"

definition join_event :: "Store option \<Rightarrow> ObjectId \<Rightarrow> JoinEvent \<Rightarrow> (error + Event) \<times> Store option" where
  "join_event db new_id payload =
     (case db of
        None \<Rightarrow> (Inl (HTTPException 500 ''Database not configured''), db)
      | Some s \<Rightarrow>
          (case find_by_code (je_code payload) (db_event s) of
             None \<Rightarrow> (Inl (HTTPException 404 ''Event not found''), db)
           | Some event \<Rightarrow>
               let participants = add_participant (get_default (e_participants event) []) (je_user_id payload);
                   s1 = s\<lparr>db_event := update_one (\<lambda>e. e_id e = e_id event)
                                         (\<lambda>e. e\<lparr>e_participants := Some participants\<rparr>) (db_event s)\<rparr>;
                   s2 = s1\<lparr>db_userprofile := upsert_profile_on_join new_id payload (db_userprofile s1)\<rparr>
               in (case find_one (\<lambda>e. e_id e = e_id event) (db_event s2) of
                     None \<Rightarrow> (Inl AttributeError, Some s2)
                   | Some event' \<Rightarrow> (Inr event', Some s2))))"

definition get_event_by_code :: "Store option \<Rightarrow> string \<Rightarrow> (error + Event) \<times> Store option" where
  "get_event_by_code db code =
     (case db of
        None \<Rightarrow> (Inl TypeError, db)
      | Some s \<Rightarrow>
          (case find_by_code code (db_event s) of
             None \<Rightarrow> (Inl (HTTPException 404 ''Event not found''), db)
           | Some event \<Rightarrow> (Inr event, db)))"

definition get_event :: "Store option \<Rightarrow> string \<Rightarrow> (error + Event) \<times> Store option" where
  "get_event db event_id =
     (case ObjectId_parse event_id of
        None \<Rightarrow> (Inl (HTTPException 400 ''Invalid event id''), db)
      | Some obj_id \<Rightarrow>
          (case db of
             None \<Rightarrow> (Inl TypeError, db)
           | Some s \<Rightarrow>
               (case find_one (\<lambda>e. e_id e = obj_id) (db_event s) of
                  None \<Rightarrow> (Inl (HTTPException 404 ''Event not found''), db)
                | Some event \<Rightarrow> (Inr event, db))))"

subsection \<open>Media handlers\<close>

definition upload_media :: "Store option \<Rightarrow> ObjectId \<Rightarrow> UploadMedia \<Rightarrow> (error + Media) \<times> Store option" where
  "upload_media db new_id payload =
     (case db of
        None \<Rightarrow> (Inl (HTTPException 500 ''Database not configured''), db)
      | Some s \<Rightarrow>
          (case ObjectId_parse (um_event_id payload) of
             None \<Rightarrow> (Inl (HTTPException 400 ''Invalid event id''), db)
           | Some obj_id \<Rightarrow>
               (case find_one (\<lambda>e. e_id e = obj_id) (db_event s) of
                  None \<Rightarrow> (Inl (HTTPException 404 ''Event not found''), db)
                | Some _ \<Rightarrow>
                    let media_doc = \<lparr>m_id = new_id, m_event_id = um_event_id payload,
                                     m_user_id = um_user_id payload, m_url = um_url payload,
                                     m_media_type = um_media_type payload,
                                     m_challenge = um_challenge payload,
                                     m_likes_count = Some 0, m_comments_count = Some 0,
                                     m_created_at = None\<rparr>
                    in (Inr media_doc, Some (s\<lparr>db_media := insert_one media_doc (db_media s)\<rparr>)))))"

definition list_media_for_event ::
  "Store option \<Rightarrow> string \<Rightarrow> string \<Rightarrow> (error + Media list) \<times> Store option" where
  "list_media_for_event db event_id sort_param =
     (case ObjectId_parse event_id of
        None \<Rightarrow> (Inl (HTTPException 400 ''Invalid event id''), db)
      | Some _ \<Rightarrow>
          (case db of
             None \<Rightarrow> (Inl TypeError, db)
           | Some s \<Rightarrow>
               let cursor = find_all (\<lambda>m. m_event_id m = event_id) (db_media s);
                   cursor' =
                     (if sort_param = ''time'' then sort_desc m_created_at cursor
                      else if sort_param = ''participant'' then sort_asc m_user_id cursor
                      else if sort_param = ''challenge'' then sort_asc m_challenge cursor
                      else cursor)
               in (Inr cursor', db)))"

definition toggle_like ::
  "Store option \<Rightarrow> ObjectId \<Rightarrow> string \<Rightarrow> ToggleLike \<Rightarrow> (error + Media) \<times> Store option" where
  "toggle_like db new_id media_id payload =
     (case ObjectId_parse media_id of
        None \<Rightarrow> (Inl (HTTPException 400 ''Invalid media id''), db)
      | Some obj_id \<Rightarrow>
          (case db of
             None \<Rightarrow> (Inl TypeError, db)
           | Some s \<Rightarrow>
               (case find_one (\<lambda>m. m_id m = obj_id) (db_media s) of
                  None \<Rightarrow> (Inl (HTTPException 404 ''Media not found''), db)
                | Some media \<Rightarrow>
                    let like_q = (\<lambda>l. l_media_id l = media_id \<and> l_user_id l = tl_user_id payload);
                        (likes, delta) =
                          (case find_one like_q (db_like s) of
                             Some exists \<Rightarrow> (delete_one (\<lambda>l. l_id l = l_id exists) (db_like s), - 1)
                           | None \<Rightarrow>
                               (insert_one \<lparr>l_id = new_id, l_media_id = media_id,
                                            l_user_id = tl_user_id payload\<rparr> (db_like s), 1));
                        new_count = max 0 (get_default (m_likes_count media) 0 + delta);
                        s' = s\<lparr>db_like := likes,
                               db_media := update_one (\<lambda>m. m_id m = m_id media)
                                             (\<lambda>m. m\<lparr>m_likes_count := Some new_count\<rparr>) (db_media s)\<rparr>
                    in (case find_one (\<lambda>m. m_id m = m_id media) (db_media s') of
                          None \<Rightarrow> (Inl AttributeError, Some s')
                        | Some updated \<Rightarrow> (Inr updated, Some s')))))"

definition list_comments :: "Store option \<Rightarrow> string \<Rightarrow> (error + Comment list) \<times> Store option" where
  "list_comments db media_id =
     (case ObjectId_parse media_id of
        None \<Rightarrow> (Inl (HTTPException 400 ''Invalid media id''), db)
      | Some _ \<Rightarrow>
          (case db of
             None \<Rightarrow> (Inl TypeError, db)
           | Some s \<Rightarrow>
               (Inr (sort_asc c_created_at (find_all (\<lambda>c. c_media_id c = media_id) (db_comment s))), db)))"

definition add_comment ::
  "Store option \<Rightarrow> ObjectId \<Rightarrow> string \<Rightarrow> AddComment \<Rightarrow> (error + unit) \<times> Store option" where
  "add_comment db new_id media_id payload =
     (case ObjectId_parse media_id of
        None \<Rightarrow> (Inl (HTTPException 400 ''Invalid media id''), db)
      | Some obj_id \<Rightarrow>
          (case db of
             None \<Rightarrow> (Inl TypeError, db)
           | Some s \<Rightarrow>
               (case find_one (\<lambda>m. m_id m = obj_id) (db_media s) of
                  None \<Rightarrow> (Inl (HTTPException 404 ''Media not found''), db)
                | Some media \<Rightarrow>
                    let comment_doc = \<lparr>c_id = new_id, c_media_id = media_id,
                                       c_user_id = ac_user_id payload, c_text = ac_text payload,
                                       c_created_at = None\<rparr>;
                        new_count = get_default (m_comments_count media) 0 + 1
                    in (Inr (),
                        Some (s\<lparr>db_comment := insert_one comment_doc (db_comment s),
                                db_media := update_one (\<lambda>m. m_id m = m_id media)
                                              (\<lambda>m. m\<lparr>m_comments_count := Some new_count\<rparr>)
                                              (db_media s)\<rparr>)))))"

subsection \<open>User handlers\<close>

record UserOut =
  uo_profile :: Userprofile
  uo_joined_events :: "Event list"
  uo_uploads_count :: nat

definition get_user :: "Store option \<Rightarrow> string \<Rightarrow> (error + UserOut) \<times> Store option" where
  "get_user db user_id =
     (case db of
        None \<Rightarrow> (Inl TypeError, db)
      | Some s \<Rightarrow>
          let prof =
                (case find_one (\<lambda>p. u_user_id p = user_id) (db_userprofile s) of
                   Some p \<Rightarrow> p
                 | None \<Rightarrow> \<lparr>u_id = None, u_user_id = user_id, u_username = Some ''Guest'',
                            u_avatar_url = None, u_bio = None, u_following_events = Some []\<rparr>);
              joined = find_all (\<lambda>e. user_id \<in> set (get_default (e_participants e) [])) (db_event s);
              uploads = count_documents (\<lambda>m. m_user_id m = user_id) (db_media s)
          in (Inr \<lparr>uo_profile = prof, uo_joined_events = joined, uo_uploads_count = uploads\<rparr>, db))"

text \<open>\<open>$set\<close> of the fields of the body that are not \<^verbatim>\<open>None\<close>.\<close>

definition set_opt :: "'a option \<Rightarrow> 'a option \<Rightarrow> 'a option" where
  "set_opt new old = (case new of None \<Rightarrow> old | Some v \<Rightarrow> Some v)"

definition apply_updates :: "UpdateUser \<Rightarrow> Userprofile \<Rightarrow> Userprofile" where
  "apply_updates payload p =
     p\<lparr>u_username := set_opt (uu_username payload) (u_username p),
       u_avatar_url := set_opt (uu_avatar_url payload) (u_avatar_url p),
       u_bio := set_opt (uu_bio payload) (u_bio p)\<rparr>"

definition update_user ::
  "Store option \<Rightarrow> ObjectId \<Rightarrow> string \<Rightarrow> UpdateUser \<Rightarrow> (error + Userprofile option) \<times> Store option" where
  "update_user db new_id user_id payload =
     (if uu_username payload = None \<and> uu_avatar_url payload = None \<and> uu_bio payload = None
      then (Inr None, db)
      else
        (case db of
           None \<Rightarrow> (Inl TypeError, db)
         | Some s \<Rightarrow>
             let profiles =
                   (case find_one (\<lambda>p. u_user_id p = user_id) (db_userprofile s) of
                      Some _ \<Rightarrow> update_one (\<lambda>p. u_user_id p = user_id) (apply_updates payload)
                                 (db_userprofile s)
                    | None \<Rightarrow>
                        insert_one (apply_updates payload
                                      \<lparr>u_id = Some new_id, u_user_id = user_id, u_username = None,
                                       u_avatar_url = None, u_bio = None,
                                       u_following_events = None\<rparr>)
                          (db_userprofile s));
                 s' = s\<lparr>db_userprofile := profiles\<rparr>
             in (case find_one (\<lambda>p. u_user_id p = user_id) profiles of
                   None \<Rightarrow> (Inl AttributeError, Some s')
                 | Some prof \<Rightarrow> (Inr (Some prof), Some s'))))"

subsection \<open>The API as a whole\<close>

text \<open>
  \<^verbatim>\<open>read_root\<close> and \<^verbatim>\<open>hello\<close> return a fixed message; \<^verbatim>\<open>test_database\<close> reports on
  the handle (only whether it is set is kept here) and writes nothing.
\<close>

definition read_root :: "Store option \<Rightarrow> (error + string) \<times> Store option" where
  "read_root db = (Inr ''ShootUp Backend is running'', db)"

definition hello :: "Store option \<Rightarrow> (error + string) \<times> Store option" where
  "hello db = (Inr ''Hello from ShootUp API'', db)"

definition test_database :: "Store option \<Rightarrow> (error + bool) \<times> Store option" where
  "test_database db = (Inr (db \<noteq> None), db)"

datatype request =
    ReadRoot
  | Hello
  | TestDatabase
  | CreateEventReq CreateEvent
  | ExploreEventsReq int
  | JoinEventReq JoinEvent
  | GetEventByCodeReq string
  | GetEventReq string
  | UploadMediaReq UploadMedia
  | ListMediaForEventReq string string
  | ToggleLikeReq string ToggleLike
  | ListCommentsReq string
  | AddCommentReq string AddComment
  | GetUserReq string
  | UpdateUserReq string UpdateUser

datatype response =
    RMessage string
  | RDiagnostic bool
  | REvent Event
  | REvents "EventItem list"
  | RMedia Media
  | RMediaItems "Media list"
  | RComments "Comment list"
  | ROk
  | RUser UserOut
  | RProfile "Userprofile option"

definition respond ::
  "('a \<Rightarrow> response) \<Rightarrow> (error + 'a) \<times> Store option \<Rightarrow> (error + response) \<times> Store option" where
  "respond f out = (map_sum id f (fst out), snd out)"

text \<open>
  One request: the route table of the application. \<open>new_id\<close> is the identifier the driver
  generates if the handler inserts a document, \<open>rnd\<close> the random source.
\<close>

fun handle ::
  "Store option \<Rightarrow> ObjectId \<Rightarrow> (nat \<Rightarrow> nat) \<Rightarrow> request \<Rightarrow> (error + response) \<times> Store option" where
  "handle db new_id rnd ReadRoot = respond RMessage (read_root db)"
| "handle db new_id rnd Hello = respond RMessage (hello db)"
| "handle db new_id rnd TestDatabase = respond RDiagnostic (test_database db)"
| "handle db new_id rnd (CreateEventReq p) = respond REvent (create_event db new_id rnd p)"
| "handle db new_id rnd (ExploreEventsReq limit) = respond REvents (explore_events db limit)"
| "handle db new_id rnd (JoinEventReq p) = respond REvent (join_event db new_id p)"
| "handle db new_id rnd (GetEventByCodeReq code) = respond REvent (get_event_by_code db code)"
| "handle db new_id rnd (GetEventReq event_id) = respond REvent (get_event db event_id)"
| "handle db new_id rnd (UploadMediaReq p) = respond RMedia (upload_media db new_id p)"
| "handle db new_id rnd (ListMediaForEventReq event_id sort_param) =
     respond RMediaItems (list_media_for_event db event_id sort_param)"
| "handle db new_id rnd (ToggleLikeReq media_id p) = respond RMedia (toggle_like db new_id media_id p)"
| "handle db new_id rnd (ListCommentsReq media_id) = respond RComments (list_comments db media_id)"
| "handle db new_id rnd (AddCommentReq media_id p) =
     respond (\<lambda>_. ROk) (add_comment db new_id media_id p)"
| "handle db new_id rnd (GetUserReq user_id) = respond RUser (get_user db user_id)"
| "handle db new_id rnd (UpdateUserReq user_id p) = respond RProfile (update_user db new_id user_id p)"

text \<open>A sequence of requests, handled one after the other; the handle after the last one.\<close>

fun run :: "Store option \<Rightarrow> (ObjectId \<times> (nat \<Rightarrow> nat) \<times> request) list \<Rightarrow> Store option" where
  "run db [] = db"
| "run db ((new_id, rnd, r) # rs) = run (snd (handle db new_id rnd r)) rs"

subsection \<open>Notions used in the properties\<close>

text \<open>
  What \<^verbatim>\<open>add_comment\<close> reads: \<^verbatim>\<open>media.get("comments_count", 0)\<close>.
\<close>

definition comments_count_of :: "Media \<Rightarrow> int" where
  "comments_count_of m = get_default (m_comments_count m) 0"

text \<open>
  The media collection \<open>ms'\<close> still holds every document of \<open>ms\<close> at its place, under
  the same identifier, with a \<open>comments_count\<close> that is not smaller.
\<close>

definition counts_kept :: "Media list \<Rightarrow> Media list \<Rightarrow> bool" where
  "counts_kept ms ms' =
     (length ms \<le> length ms' \<and>
      list_all2 (\<lambda>a b. m_id b = m_id a \<and> comments_count_of a \<le> comments_count_of b)
        ms (take (length ms) ms'))"

text \<open>
  The store after a call holds the same comments, and every Media document of the store
  before it at its place with the same identifier and the same \<open>comments_count\<close> field.
\<close>

definition comments_untouched :: "Store \<Rightarrow> Store option \<Rightarrow> bool" where
  "comments_untouched s db' =
     (case db' of None \<Rightarrow> False
      | Some s' \<Rightarrow>
          db_comment s' = db_comment s
          \<and> map m_id (take (length (db_media s)) (db_media s')) = map m_id (db_media s)
          \<and> map m_comments_count (take (length (db_media s)) (db_media s'))
              = map m_comments_count (db_media s))"

text \<open>The participants of an event as a set; a missing list is empty.\<close>

definition participant_set :: "Event \<Rightarrow> string set" where
  "participant_set e = set (get_default (e_participants e) [])"

text \<open>The number of Like rows of a user on a media identifier, as toggle-like queries them.\<close>

definition like_rows :: "Store \<Rightarrow> string \<Rightarrow> string \<Rightarrow> nat" where
  "like_rows s media_id user_id =
     count_documents (\<lambda>l. l_media_id l = media_id \<and> l_user_id l = user_id) (db_like s)"

text \<open>What toggle-like reads: \<^verbatim>\<open>media.get("likes_count", 0)\<close>.\<close>

definition likes_count_of :: "Media \<Rightarrow> int" where
  "likes_count_of m = get_default (m_likes_count m) 0"

text \<open>The number of Like rows whose \<open>media_id\<close> reads as the identifier \<open>k\<close>.\<close>

definition like_refs :: "Like list \<Rightarrow> ObjectId \<Rightarrow> nat" where
  "like_refs ls k = length (filter (\<lambda>l. ObjectId_parse (l_media_id l) = Some k) ls)"

text \<open>
  The counters of the Media \<open>ms\<close> agree with the Like rows \<open>ls\<close>: identifiers are
  distinct, there is at most one Like per media identifier and user, every Like is on a
  stored Media, and the \<open>likes_count\<close> of a Media is the number of Likes on it.
\<close>

definition agree :: "Media list \<Rightarrow> Like list \<Rightarrow> bool" where
  "agree ms ls =
     (distinct (map m_id ms)
      \<and> distinct (map l_id ls)
      \<and> distinct (map (\<lambda>l. (l_media_id l, l_user_id l)) ls)
      \<and> list_all (\<lambda>l. ObjectId_parse (l_media_id l) \<in> set (map (\<lambda>m. Some (m_id m)) ms)) ls
      \<and> list_all (\<lambda>m. m_likes_count m = Some (int (like_refs ls (m_id m)))) ms)"

definition consistent :: "Store \<Rightarrow> bool" where
  "consistent s = agree (db_media s) (db_like s)"

text \<open>The identifier generated for an insertion is not in use.\<close>

definition fresh :: "ObjectId \<Rightarrow> Store \<Rightarrow> bool" where
  "fresh new_id s =
     (new_id \<notin> set (map m_id (db_media s)) \<and> new_id \<notin> set (map l_id (db_like s)))"

text \<open>The requests in turn find their generated identifier not in use.\<close>

fun fresh_run :: "Store option \<Rightarrow> (ObjectId \<times> (nat \<Rightarrow> nat) \<times> request) list \<Rightarrow> bool" where
  "fresh_run db [] = True"
| "fresh_run db ((new_id, rnd, r) # rs) =
     ((case db of None \<Rightarrow> True | Some s \<Rightarrow> fresh new_id s)
      \<and> fresh_run (snd (handle db new_id rnd r)) rs)"

text \<open>The other handlers write neither the media nor the Like collection.\<close>

definition likes_untouched :: "Store \<Rightarrow> Store option \<Rightarrow> bool" where
  "likes_untouched s db' =
     (case db' of None \<Rightarrow> False
      | Some s' \<Rightarrow> db_media s' = db_media s \<and> db_like s' = db_like s)"

subsection \<open>Example data\<close>

definition empty_store :: Store where
  "empty_store = \<lparr>db_event = [], db_media = [], db_comment = [], db_like = [], db_userprofile = []\<rparr>"

definition oid1 :: ObjectId where "oid1 = ObjectId ''000000000000000000000001''"
definition oid2 :: ObjectId where "oid2 = ObjectId ''000000000000000000000002''"
definition oid3 :: ObjectId where "oid3 = ObjectId ''000000000000000000000003''"
definition oid4 :: ObjectId where "oid4 = ObjectId ''000000000000000000000004''"

definition event1 :: Event where
  "event1 = \<lparr>e_id = oid1, e_code = ''AAAAAA'', e_title = ''Beach Day'', e_date_iso = None,
     e_location = None, e_access = ''public'', e_cover_url = None, e_participants = Some [],
     e_challenges = [], e_ended = False, e_created_at = None\<rparr>"


definition media1 :: Media where
  "media1 = \<lparr>m_id = oid2, m_event_id = ''000000000000000000000001'', m_user_id = ''u1'',
      m_url = ''http://x/1.jpg'', m_media_type = ''photo'', m_challenge = None,
      m_likes_count = Some 0, m_comments_count = Some 0, m_created_at = None\<rparr>"

definition media2 :: Media where
  "media2 = \<lparr>m_id = oid3, m_event_id = ''000000000000000000000001'', m_user_id = ''u0'',
      m_url = ''http://x/2.jpg'', m_media_type = ''photo'', m_challenge = None,
      m_likes_count = Some 0, m_comments_count = Some 0, m_created_at = None\<rparr>"

definition store_media :: Store where
  "store_media = empty_store\<lparr>db_event := [event1], db_media := [media1, media2]\<rparr>"

definition like_u1 :: ToggleLike where
  "like_u1 = \<lparr>tl_user_id = ''u1''\<rparr>"

definition create1 :: CreateEvent where
  "create1 = \<lparr>ce_title = ''Beach Day'', ce_date_iso = None, ce_location = None,
      ce_access = ''public'', ce_cover_url = None, ce_challenges = []\<rparr>"

definition join1 :: JoinEvent where
  "join1 = \<lparr>je_code = ''aaaaaa'', je_user_id = ''u1'', je_username = None\<rparr>"

definition comment1 :: AddComment where
  "comment1 = \<lparr>ac_user_id = ''u1'', ac_text = ''nice''\<rparr>"

definition store_event1 :: Store where
  "store_event1 = empty_store\<lparr>db_event := [event1]\<rparr>"

definition event1b :: Event where
  "event1b = event1\<lparr>e_id := oid2\<rparr>"

definition create_first :: CreateEvent where
  "create_first = \<lparr>ce_title = ''first'', ce_date_iso = None, ce_location = None,
      ce_access = ''public'', ce_cover_url = None, ce_challenges = []\<rparr>"

definition create_second :: CreateEvent where
  "create_second = \<lparr>ce_title = ''second'', ce_date_iso = None, ce_location = None,
      ce_access = ''public'', ce_cover_url = None, ce_challenges = []\<rparr>"

definition two_creations :: "Store option" where
  "two_creations = run (Some empty_store)
     [(oid1, (\<lambda>i. 0), CreateEventReq create_first), (oid2, (\<lambda>i. 0), CreateEventReq create_second)]"

definition example_requests :: "(ObjectId \<times> (nat \<Rightarrow> nat) \<times> request) list" where
  "example_requests =
     [(oid4, (\<lambda>i. 0), AddCommentReq ''000000000000000000000002'' comment1),
      (oid1, (\<lambda>i. 0), ToggleLikeReq ''000000000000000000000002'' like_u1)]"

definition store_after :: Store where
  "store_after = store_media
     \<lparr>db_media := [media1\<lparr>m_likes_count := Some 1, m_comments_count := Some 1\<rparr>, media2],
      db_comment := [\<lparr>c_id = oid4, c_media_id = ''000000000000000000000002'', c_user_id = ''u1'',
                      c_text = ''nice'', c_created_at = None\<rparr>],
      db_like := [\<lparr>l_id = oid1, l_media_id = ''000000000000000000000002'', l_user_id = ''u1''\<rparr>]\<rparr>"

definition oid5 :: ObjectId where "oid5 = ObjectId ''000000000000000000000005''"
definition oid6 :: ObjectId where "oid6 = ObjectId ''000000000000000000000006''"

definition like1 :: Like where
  "like1 = \<lparr>l_id = oid4, l_media_id = ''000000000000000000000002'', l_user_id = ''u1''\<rparr>"

text \<open>A store in which the counter of \<open>media1\<close> is 0 although a Like of user u1 is stored.\<close>

definition store_drift :: Store where
  "store_drift = store_media\<lparr>db_like := [like1]\<rparr>"

text \<open>A store in which \<open>media1\<close> has one Like, of user u1, and the counter 1.\<close>

definition store_liked :: Store where
  "store_liked = store_media\<lparr>db_media := [media1\<lparr>m_likes_count := Some 1\<rparr>, media2],
                             db_like := [like1]\<rparr>"

text \<open>The identifier read from a string of 22 digits and two spaces: eleven bytes.\<close>

definition oid_short :: ObjectId where "oid_short = ObjectId ''0000000000000000000002''"

definition event_u0 :: Event where
  "event_u0 = event1\<lparr>e_participants := Some [''u0'']\<rparr>"

definition event_u0_joined :: Event where
  "event_u0_joined = event1\<lparr>e_participants := Some [''u0'', ''u1'']\<rparr>"

definition store_u0 :: Store where
  "store_u0 = empty_store\<lparr>db_event := [event_u0]\<rparr>"

definition store_u0_joined :: Store where
  "store_u0_joined = empty_store
     \<lparr>db_event := [event_u0_joined],
      db_userprofile := [\<lparr>u_id = Some oid2, u_user_id = ''u1'', u_username = Some ''Guest'',
                           u_avatar_url = None, u_bio = None, u_following_events = Some []\<rparr>]\<rparr>"

definition update1 :: UpdateUser where
  "update1 = \<lparr>uu_username = Some ''Ann'', uu_avatar_url = None, uu_bio = None\<rparr>"

section \<open>Properties\<close>

subsection \<open>Evaluating the examples\<close>

lemma parse_oid1: "ObjectId_parse ''000000000000000000000001'' = Some oid1"
  unfolding oid1_def by code_simp

lemma parse_oid2: "ObjectId_parse ''000000000000000000000002'' = Some oid2"
  unfolding oid2_def by code_simp

lemma parse_bad: "ObjectId_parse ''not-an-id'' = None"
  by (simp add: ObjectId_parse_def)

lemma parse_spaces: "ObjectId_parse ''0000000000000000000002  '' = Some oid_short"
  unfolding oid_short_def by code_simp

subsection \<open>Upload\<close>



subsection \<open>Listing media\<close>

text \<open>
  Claim C10. With the store configured and a well-formed \<open>event_id\<close>, a \<open>sort\<close> value
  other than "time", "participant" and "challenge" is not rejected: the call returns every
  Media of the event, in the order of the collection, and leaves the store as it was.
\<close>

theorem list_media_unknown_sort:
  "ObjectId_parse event_id \<noteq> None \<Longrightarrow>
   sort_param \<noteq> ''time'' \<Longrightarrow> sort_param \<noteq> ''participant'' \<Longrightarrow> sort_param \<noteq> ''challenge'' \<Longrightarrow>
   list_media_for_event (Some s) event_id sort_param
     = (Inr (filter (\<lambda>m. m_event_id m = event_id) (db_media s)), Some s)"
  by (auto simp: list_media_for_event_def find_all_def Let_def split: option.splits)

theorem list_media_unknown_sort_witness:
  "list_media_for_event (Some store_media) ''000000000000000000000001'' ''newest''
     = (Inr [media1, media2], Some store_media)"
proof -
  have a: "ObjectId_parse ''000000000000000000000001'' \<noteq> None"
    by (simp add: parse_oid1)
  have b: "filter (\<lambda>m. m_event_id m = ''000000000000000000000001'') (db_media store_media)
      = [media1, media2]"
    by (simp add: store_media_def media1_def media2_def)
  have "list_media_for_event (Some store_media) ''000000000000000000000001'' ''newest''
     = (Inr (filter (\<lambda>m. m_event_id m = ''000000000000000000000001'') (db_media store_media)),
        Some store_media)"
    by (rule list_media_unknown_sort [OF a]) simp_all
  then show ?thesis by (simp only: b)
qed

subsection \<open>Reading a user\<close>

text \<open>
  Claim C7. For a \<open>user_id\<close> with no stored profile, get-user returns the default
  profile (username "Guest", no avatar, no followed events) with the joined events and
  the number of uploads read from the store; the store after the call is the store before
  it, and the same call again returns the same answer.
\<close>

theorem get_user_default_not_persisted:
  "find_one (\<lambda>p. u_user_id p = user_id) (db_userprofile s) = None \<Longrightarrow>
   get_user (Some s) user_id
     = (Inr \<lparr>uo_profile = \<lparr>u_id = None, u_user_id = user_id, u_username = Some ''Guest'',
                 u_avatar_url = None, u_bio = None, u_following_events = Some []\<rparr>,
             uo_joined_events =
               filter (\<lambda>e. user_id \<in> set (get_default (e_participants e) [])) (db_event s),
             uo_uploads_count = length (filter (\<lambda>m. m_user_id m = user_id) (db_media s))\<rparr>,
        Some s)
   \<and> get_user (snd (get_user (Some s) user_id)) user_id = get_user (Some s) user_id"
  by (simp add: get_user_def find_all_def count_documents_def Let_def)

theorem get_user_default_not_persisted_witness:
  "get_user (Some store_media) ''unknown_id''
     = (Inr \<lparr>uo_profile = \<lparr>u_id = None, u_user_id = ''unknown_id'', u_username = Some ''Guest'',
                 u_avatar_url = None, u_bio = None, u_following_events = Some []\<rparr>,
             uo_joined_events = [], uo_uploads_count = 0\<rparr>,
        Some store_media)
   \<and> get_user (snd (get_user (Some store_media) ''unknown_id'')) ''unknown_id''
       = get_user (Some store_media) ''unknown_id''"
proof -
  have a: "find_one (\<lambda>p. u_user_id p = ''unknown_id'') (db_userprofile store_media) = None"
    by (simp add: store_media_def empty_store_def find_one_def)
  have b: "filter (\<lambda>e. ''unknown_id'' \<in> set (get_default (e_participants e) [])) (db_event store_media) = []"
    by (simp add: store_media_def event1_def get_default_def)
  have c: "length (filter (\<lambda>m. m_user_id m = ''unknown_id'') (db_media store_media)) = 0"
    by (simp add: store_media_def media1_def media2_def)
  show ?thesis
    by (rule get_user_default_not_persisted [OF a, unfolded b c])
qed

subsection \<open>The store is not configured\<close>

text \<open>
  Four handlers test the handle first and raise
  \<^verbatim>\<open>HTTPException(500, "Database not configured")\<close>, which is neither a 400 nor a 404.
\<close>

lemma guarded_handlers_unconfigured:
  "create_event None new_id rnd cp = (Inl (HTTPException 500 ''Database not configured''), None)
   \<and> explore_events None limit = (Inl (HTTPException 500 ''Database not configured''), None)
   \<and> join_event None new_id jp = (Inl (HTTPException 500 ''Database not configured''), None)
   \<and> upload_media None new_id up = (Inl (HTTPException 500 ''Database not configured''), None)
   \<and> (\<forall>d. HTTPException 500 ''Database not configured'' \<noteq> HTTPException 400 d)
   \<and> (\<forall>d. HTTPException 500 ''Database not configured'' \<noteq> HTTPException 404 d)"
  by (simp add: create_event_def explore_events_def join_event_def upload_media_def)

text \<open>
  The other eight do not test it: once the request is past the check of its identifier,
  the first use of the handle raises \<open>TypeError\<close>.
\<close>

lemma unguarded_handlers_None:
  "get_event_by_code None code = (Inl TypeError, None)"
  "get_user None user_id = (Inl TypeError, None)"
  "ObjectId_parse i \<noteq> None \<Longrightarrow> get_event None i = (Inl TypeError, None)"
  "ObjectId_parse i \<noteq> None \<Longrightarrow> list_media_for_event None i sort_param = (Inl TypeError, None)"
  "ObjectId_parse i \<noteq> None \<Longrightarrow> toggle_like None new_id i lp = (Inl TypeError, None)"
  "ObjectId_parse i \<noteq> None \<Longrightarrow> list_comments None i = (Inl TypeError, None)"
  "ObjectId_parse i \<noteq> None \<Longrightarrow> add_comment None new_id i ap = (Inl TypeError, None)"
  "uu_username up \<noteq> None \<or> uu_avatar_url up \<noteq> None \<or> uu_bio up \<noteq> None \<Longrightarrow>
     update_user None new_id user_id up = (Inl TypeError, None)"
  by (auto simp: get_event_by_code_def get_user_def get_event_def list_media_for_event_def
      toggle_like_def list_comments_def add_comment_def update_user_def)

text \<open>
  Claim C8 says that with no store the operations fail with ServiceUnavailable, as
  create-event does. With no store, get-user for "u1" raises \<open>TypeError\<close> and not the
  500 of its guarded siblings; so do get-event-by-code, get-event, list-media-for-event,
  toggle-like, list-comments, add-comment and update-user on well-formed requests.
\<close>

theorem unguarded_handlers_unconfigured:
  "get_user None ''u1'' = (Inl TypeError, None)
   \<and> get_event_by_code None ''AAAAAA'' = (Inl TypeError, None)
   \<and> get_event None ''000000000000000000000001'' = (Inl TypeError, None)
   \<and> list_media_for_event None ''000000000000000000000001'' ''time'' = (Inl TypeError, None)
   \<and> toggle_like None oid4 ''000000000000000000000002'' like_u1 = (Inl TypeError, None)
   \<and> list_comments None ''000000000000000000000002'' = (Inl TypeError, None)
   \<and> add_comment None oid4 ''000000000000000000000002'' comment1 = (Inl TypeError, None)
   \<and> update_user None oid4 ''u1'' update1 = (Inl TypeError, None)
   \<and> create_event None oid1 (\<lambda>i. 0) create1
       = (Inl (HTTPException 500 ''Database not configured''), None)
   \<and> TypeError \<noteq> HTTPException 500 ''Database not configured''"
  by (simp add: unguarded_handlers_None parse_oid1 parse_oid2 update1_def create_event_def)

subsection \<open>Failures of toggle-like\<close>

text \<open>
  Claim C4 says that toggle-like answers a malformed \<open>media_id\<close> with NotFound. With the
  store configured and \<open>media_id = "not-an-id"\<close> it answers 400, not 404.
\<close>

theorem toggle_like_malformed_is_400:
  "toggle_like (Some empty_store) oid1 ''not-an-id'' like_u1
     = (Inl (HTTPException 400 ''Invalid media id''), Some empty_store)
   \<and> HTTPException 400 ''Invalid media id'' \<noteq> HTTPException 404 ''Media not found''"
  by (simp add: toggle_like_def parse_bad)

text \<open>
  Claim C4, amended. Toggle-like answers a malformed \<open>media_id\<close> (one on which
  \<^verbatim>\<open>ObjectId\<close> raises) with 400 (InvalidArgument) and a well-formed \<open>media_id\<close> of no
  stored Media with 404 (NotFound);
  in both cases the store after the call is the store before it: no Like is inserted or
  deleted and no \<open>likes_count\<close> is written.
\<close>

theorem toggle_like_failures:
  "(ObjectId_parse media_id = None \<longrightarrow>
      toggle_like db new_id media_id p = (Inl (HTTPException 400 ''Invalid media id''), db))
   \<and> (\<forall>obj_id. ObjectId_parse media_id = Some obj_id
          \<and> find_one (\<lambda>m. m_id m = obj_id) (db_media s) = None \<longrightarrow>
      toggle_like (Some s) new_id media_id p = (Inl (HTTPException 404 ''Media not found''), Some s))"
  by (simp add: toggle_like_def)

theorem toggle_like_failures_witness:
  "toggle_like (Some store_media) oid4 ''not-an-id'' like_u1
     = (Inl (HTTPException 400 ''Invalid media id''), Some store_media)
   \<and> toggle_like (Some store_media) oid4 ''000000000000000000000001'' like_u1
     = (Inl (HTTPException 404 ''Media not found''), Some store_media)
   \<and> toggle_like (Some store_media) oid4 ''0000000000000000000002  '' like_u1
     = (Inl (HTTPException 404 ''Media not found''), Some store_media)"
proof -
  have b: "ObjectId_parse ''000000000000000000000001'' = Some oid1
      \<and> find_one (\<lambda>m. m_id m = oid1) (db_media store_media) = None"
    by (simp add: parse_oid1 store_media_def find_one_def media1_def media2_def
        oid1_def oid2_def oid3_def)
  have w: "ObjectId_parse ''0000000000000000000002  '' = Some oid_short
      \<and> find_one (\<lambda>m. m_id m = oid_short) (db_media store_media) = None"
    by (simp add: parse_spaces store_media_def find_one_def media1_def media2_def
        oid_short_def oid2_def oid3_def)
  show ?thesis
    apply (intro conjI)
      apply (rule toggle_like_failures [THEN conjunct1, THEN mp, OF parse_bad])
     apply (rule toggle_like_failures [THEN conjunct2, THEN spec, THEN mp, OF b])
    apply (rule toggle_like_failures [THEN conjunct2, THEN spec, THEN mp, OF w])
    done
qed

subsection \<open>Creating an event\<close>

lemma length_generate_code: "length (generate_code rnd len) = len"
  by (simp add: generate_code_def)

lemma set_generate_code: "set (generate_code rnd len) \<subseteq> set alphabet"
proof -
  have "0 < length alphabet" by (simp add: alphabet_def)
  then have "alphabet ! (rnd i mod length alphabet) \<in> set alphabet" for i
    by (intro nth_mem mod_less_divisor)
  then show ?thesis by (auto simp: generate_code_def)
qed

lemma generate_code_zero: "generate_code (\<lambda>i. 0) 6 = ''AAAAAA''"
  by (simp add: generate_code_def alphabet_def upt_rec)

text \<open>
  Claim C6. With the store configured, create-event succeeds whatever the random draws are
  and returns an Event whose \<open>code\<close> has exactly 6 characters, each of A-Z or 0-9, with
  an empty participant list and \<open>ended = False\<close>. No uniqueness check is made: a second
  creation under the same draws succeeds as well, and the store then holds both events
  with the same code.
\<close>

theorem create_event_code:
  "\<exists>e. create_event (Some s) new_id rnd p = (Inr e, Some (s\<lparr>db_event := db_event s @ [e]\<rparr>))
     \<and> length (e_code e) = 6
     \<and> set (e_code e) \<subseteq> set ''ABCDEFGHIJKLMNOPQRSTUVWXYZ0123456789''
     \<and> e_participants e = Some [] \<and> \<not> e_ended e
     \<and> (\<exists>e'. create_event (Some (s\<lparr>db_event := db_event s @ [e]\<rparr>)) new_id' rnd p'
                = (Inr e', Some (s\<lparr>db_event := db_event s @ [e, e']\<rparr>))
            \<and> e_code e' = e_code e)"
  using set_generate_code [of rnd 6]
  by (simp add: create_event_def Let_def insert_one_def length_generate_code alphabet_def)

theorem create_event_code_witness:
  "create_event (Some empty_store) oid1 (\<lambda>i. 0) create1 = (Inr event1, Some store_event1)
   \<and> length (e_code event1) = 6
   \<and> set (e_code event1) \<subseteq> set ''ABCDEFGHIJKLMNOPQRSTUVWXYZ0123456789''
   \<and> e_participants event1 = Some [] \<and> \<not> e_ended event1
   \<and> create_event (Some store_event1) oid2 (\<lambda>i. 0) create1
       = (Inr event1b, Some (empty_store\<lparr>db_event := [event1, event1b]\<rparr>))
   \<and> e_code event1b = e_code event1"
proof -
  have a: "create_event (Some empty_store) oid1 (\<lambda>i. 0) create1 = (Inr event1, Some store_event1)"
    by (simp add: create_event_def Let_def generate_code_zero create1_def event1_def
        store_event1_def empty_store_def insert_one_def)
  have b: "create_event (Some store_event1) oid2 (\<lambda>i. 0) create1
       = (Inr event1b, Some (empty_store\<lparr>db_event := [event1, event1b]\<rparr>))"
    by (simp add: create_event_def Let_def generate_code_zero create1_def event1_def event1b_def
        store_event1_def empty_store_def insert_one_def)
  from create_event_code [of empty_store oid1 "\<lambda>i. 0" create1 oid2 create1]
  obtain e where e: "create_event (Some empty_store) oid1 (\<lambda>i. 0) create1
        = (Inr e, Some (empty_store\<lparr>db_event := db_event empty_store @ [e]\<rparr>))"
      "length (e_code e) = 6"
      "set (e_code e) \<subseteq> set ''ABCDEFGHIJKLMNOPQRSTUVWXYZ0123456789''"
      "e_participants e = Some []" "\<not> e_ended e"
    by blast
  from e(1) a have "e = event1" by simp
  with e a b show ?thesis by (simp add: event1b_def)
qed

subsection \<open>Exploring events\<close>

text \<open>
  \<^verbatim>\<open>explore_events\<close> sorts on the field \<open>created_at\<close>, and \<^verbatim>\<open>create_event\<close> stores no such
  field.
\<close>

lemma create_event_no_created_at:
  "create_event db new_id rnd p = (Inr e, db') \<Longrightarrow> e_created_at e = None"
  by (auto simp: create_event_def Let_def split: option.splits)

lemma set_insort_by: "set (insort_by le x xs) = insert x (set xs)"
  by (induction xs) auto

lemma set_sort_by: "set (sort_by le xs) = set xs"
  by (induction xs) (auto simp: sort_by_def set_insort_by)

text \<open>
  Every returned item is a public event, and its \<open>media_count\<close> is the number of Media
  whose \<open>event_id\<close> is the text of the event's identifier.
\<close>

lemma explore_events_public_media_count:
  assumes "explore_events (Some s) limit = (Inr items, db')"
      and "i \<in> set items"
  shows "e_access (ei_event i) = ''public''
     \<and> ei_media_count i
        = length (filter (\<lambda>m. m_event_id m = str_oid (e_id (ei_event i))) (db_media s))
     \<and> db' = Some s"
proof -
  let ?cursor = "cursor_limit limit
      (sort_desc e_created_at (find_all (\<lambda>e. e_access e = ''public'') (db_event s)))"
  from assms(1) have items: "items = map (explore_item s) ?cursor" and db: "db' = Some s"
    by (auto simp: explore_events_def Let_def)
  have "set ?cursor \<subseteq> set (filter (\<lambda>e. e_access e = ''public'') (db_event s))"
    by (auto simp: cursor_limit_def sort_desc_def find_all_def set_sort_by dest: in_set_takeD)
  with assms(2) items obtain e where e: "e_access e = ''public''" and i: "i = explore_item s e"
    by auto
  show ?thesis
    by (simp add: i db e explore_item_def Let_def count_documents_def)
qed

text \<open>
  Claim C3 asks for the newest created event first. Two public events, "first" and then
  "second", are created in an empty store and explored: neither has a \<open>created_at\<close>, so
  the descending sort on that field orders nothing, and the answer lists "first" before
  "second".
\<close>

theorem explore_events_oldest_first:
  "map_sum id (map (\<lambda>i. (e_title (ei_event i), e_created_at (ei_event i))))
     (fst (explore_events two_creations 24))
   = Inr [(''first'', None), (''second'', None)]"
  by (simp add: two_creations_def respond_def create_event_def Let_def insert_one_def
      empty_store_def explore_events_def find_all_def sort_desc_def sort_by_def cursor_limit_def
      create_first_def create_second_def explore_item_def)

subsection \<open>The comment counter\<close>

lemma length_update_one: "length (update_one P g xs) = length xs"
  by (induction xs) auto

lemma map_update_one: "(\<And>x. f (g x) = f x) \<Longrightarrow> map f (update_one P g xs) = map f xs"
  by (induction xs) auto

lemma find_update_one:
  "(\<And>x. P x \<Longrightarrow> P (g x)) \<Longrightarrow> List.find P (update_one P g xs) = map_option g (List.find P xs)"
  by (induction xs) auto

lemma counts_kept_refl: "counts_kept ms ms"
  by (simp add: counts_kept_def list_all2_same)

lemma counts_kept_trans:
  assumes "counts_kept a b" and "counts_kept b c"
  shows "counts_kept a c"
proof -
  let ?R = "\<lambda>a b. m_id b = m_id a \<and> comments_count_of a \<le> comments_count_of b"
  from assms have len: "length a \<le> length b" "length b \<le> length c"
    and ab: "list_all2 ?R a (take (length a) b)"
    and bc: "list_all2 ?R b (take (length b) c)"
    by (simp_all add: counts_kept_def)
  from bc have "list_all2 ?R (take (length a) b) (take (length a) (take (length b) c))"
    by (rule list_all2_takeI)
  with len have "list_all2 ?R (take (length a) b) (take (length a) c)"
    by (simp add: min_def)
  with ab have "list_all2 ?R a (take (length a) c)"
    by (rule list_all2_trans [rotated]) auto
  with len show ?thesis by (simp add: counts_kept_def)
qed

lemma counts_kept_maps:
  assumes "map m_id (take (length ms) ms') = map m_id ms"
      and "map m_comments_count (take (length ms) ms') = map m_comments_count ms"
  shows "counts_kept ms ms'"
proof -
  from assms(1) have len: "length (take (length ms) ms') = length ms"
    by (metis length_map)
  then have le: "length ms \<le> length ms'" by simp
  have "list_all2 (\<lambda>a b. m_id b = m_id a \<and> comments_count_of a \<le> comments_count_of b)
      ms (take (length ms) ms')"
  proof (rule list_all2_all_nthI)
    show "length ms = length (take (length ms) ms')" using len by simp
  next
    fix n assume n: "n < length ms"
    from assms(1) n len have "m_id (take (length ms) ms' ! n) = m_id (ms ! n)"
      by (metis nth_map)
    moreover from assms(2) n len
    have "m_comments_count (take (length ms) ms' ! n) = m_comments_count (ms ! n)"
      by (metis nth_map)
    ultimately show "m_id (take (length ms) ms' ! n) = m_id (ms ! n)
        \<and> comments_count_of (ms ! n) \<le> comments_count_of (take (length ms) ms' ! n)"
      by (simp add: comments_count_of_def)
  qed
  with le show ?thesis by (simp add: counts_kept_def)
qed

lemma update_one_not_found: "List.find P ms = None \<Longrightarrow> update_one P g ms = ms"
  by (induction ms) (auto split: if_splits)

lemma counts_kept_update_one:
  assumes "List.find P ms = Some m" and "m_id (g m) = m_id m"
      and "comments_count_of m \<le> comments_count_of (g m)"
  shows "counts_kept ms (update_one P g ms)"
proof -
  from assms have "list_all2 (\<lambda>a b. m_id b = m_id a \<and> comments_count_of a \<le> comments_count_of b)
      ms (update_one P g ms)"
    by (induction ms) (auto simp: list_all2_same split: if_splits)
  then show ?thesis by (simp add: counts_kept_def length_update_one)
qed

lemma untouched_same: "comments_untouched s (Some s)"
  by (simp add: comments_untouched_def)

lemma create_event_untouched: "comments_untouched s (snd (create_event (Some s) n rnd p))"
  by (simp add: create_event_def Let_def comments_untouched_def)

lemma explore_events_untouched: "comments_untouched s (snd (explore_events (Some s) l))"
  by (simp add: explore_events_def Let_def comments_untouched_def)

lemma join_event_untouched: "comments_untouched s (snd (join_event (Some s) n p))"
  by (simp add: join_event_def Let_def comments_untouched_def split: option.splits)

lemma get_event_by_code_untouched: "comments_untouched s (snd (get_event_by_code (Some s) c))"
  by (simp add: get_event_by_code_def comments_untouched_def split: option.splits)

lemma get_event_untouched: "comments_untouched s (snd (get_event (Some s) i))"
  by (simp add: get_event_def comments_untouched_def split: option.splits)

lemma upload_media_untouched: "comments_untouched s (snd (upload_media (Some s) n p))"
  by (simp add: upload_media_def Let_def insert_one_def comments_untouched_def split: option.splits)

lemma list_media_untouched: "comments_untouched s (snd (list_media_for_event (Some s) i sp))"
  by (simp add: list_media_for_event_def Let_def comments_untouched_def split: option.splits)

lemma toggle_like_untouched: "comments_untouched s (snd (toggle_like (Some s) n i p))"
  by (simp add: toggle_like_def Let_def comments_untouched_def length_update_one map_update_one
      case_prod_beta split: option.splits)

lemma list_comments_untouched: "comments_untouched s (snd (list_comments (Some s) i))"
  by (simp add: list_comments_def comments_untouched_def split: option.splits)

lemma get_user_untouched: "comments_untouched s (snd (get_user (Some s) u))"
  by (simp add: get_user_def Let_def comments_untouched_def)

lemma update_user_untouched: "comments_untouched s (snd (update_user (Some s) n u p))"
  by (simp add: update_user_def Let_def comments_untouched_def split: option.splits)

lemma handle_untouched:
  assumes "\<And>media_id p. r \<noteq> AddCommentReq media_id p"
  shows "comments_untouched s (snd (handle (Some s) new_id rnd r))"
  using assms
  by (cases r)
    (auto simp add: respond_def read_root_def hello_def test_database_def untouched_same
      create_event_untouched explore_events_untouched join_event_untouched
      get_event_by_code_untouched get_event_untouched upload_media_untouched
      list_media_untouched toggle_like_untouched list_comments_untouched get_user_untouched
      update_user_untouched)

lemma add_comment_counts_kept:
  "\<exists>s'. snd (add_comment (Some s) n i p) = Some s'
     \<and> counts_kept (db_media s) (db_media s')
     \<and> take (length (db_comment s)) (db_comment s') = db_comment s"
proof (cases "ObjectId_parse i")
  case None
  then show ?thesis by (simp add: add_comment_def counts_kept_refl)
next
  case (Some obj_id)
  show ?thesis
  proof (cases "find_one (\<lambda>m. m_id m = obj_id) (db_media s)")
    case None
    with Some show ?thesis by (simp add: add_comment_def counts_kept_refl)
  next
    case (Some media)
    then have id: "m_id media = obj_id"
      by (auto simp: find_one_def find_Some_iff)
    from Some have "counts_kept (db_media s)
        (update_one (\<lambda>m. m_id m = obj_id)
           (\<lambda>m. m\<lparr>m_comments_count := Some (get_default (m_comments_count media) 0 + 1)\<rparr>)
           (db_media s))"
      by (intro counts_kept_update_one [where m = media])
        (simp_all add: find_one_def comments_count_of_def get_default_def)
    with Some \<open>ObjectId_parse i = Some obj_id\<close> show ?thesis
      by (simp add: add_comment_def Let_def insert_one_def id)
  qed
qed

lemma handle_counts_kept:
  "\<exists>s'. snd (handle (Some s) new_id rnd r) = Some s'
     \<and> counts_kept (db_media s) (db_media s')
     \<and> take (length (db_comment s)) (db_comment s') = db_comment s"
proof (cases "\<exists>media_id p. r = AddCommentReq media_id p")
  case True
  then show ?thesis
    using add_comment_counts_kept by (auto simp: respond_def)
next
  case False
  then have "comments_untouched s (snd (handle (Some s) new_id rnd r))"
    by (intro handle_untouched) blast
  then show ?thesis
    by (auto simp: comments_untouched_def counts_kept_maps split: option.splits)
qed

lemma run_counts_kept:
  "\<exists>s'. run (Some s) reqs = Some s'
     \<and> counts_kept (db_media s) (db_media s')
     \<and> take (length (db_comment s)) (db_comment s') = db_comment s"
proof (induction reqs arbitrary: s)
  case Nil
  show ?case by (simp add: counts_kept_refl)
next
  case (Cons q reqs)
  obtain new_id rnd r where q: "q = (new_id, rnd, r)" by (cases q)
  from handle_counts_kept [of s new_id rnd r] obtain s1
    where s1: "snd (handle (Some s) new_id rnd r) = Some s1"
      and k1: "counts_kept (db_media s) (db_media s1)"
      and c1: "take (length (db_comment s)) (db_comment s1) = db_comment s"
    by blast
  from Cons.IH [of s1] obtain s'
    where s': "run (Some s1) reqs = Some s'"
      and k2: "counts_kept (db_media s1) (db_media s')"
      and c2: "take (length (db_comment s1)) (db_comment s') = db_comment s1"
    by blast
  from c1 have "length (db_comment s) = min (length (db_comment s1)) (length (db_comment s))"
    by (metis length_take)
  then have l1: "length (db_comment s) \<le> length (db_comment s1)"
    by simp
  have "take (length (db_comment s)) (db_comment s')
      = take (length (db_comment s)) (take (length (db_comment s1)) (db_comment s'))"
    using l1 by (simp add: min_def)
  also have "\<dots> = db_comment s" by (simp add: c2 c1)
  finally have "take (length (db_comment s)) (db_comment s') = db_comment s" .
  with s1 s' counts_kept_trans [OF k1 k2] show ?case
    by (simp add: q)
qed

lemma add_comment_plus_one:
  assumes "ObjectId_parse media_id = Some obj_id"
      and "find_one (\<lambda>m. m_id m = obj_id) (db_media s) = Some media"
  shows "\<exists>s'. add_comment (Some s) new_id media_id p = (Inr (), Some s')
     \<and> find_one (\<lambda>m. m_id m = obj_id) (db_media s')
         = Some (media\<lparr>m_comments_count := Some (comments_count_of media + 1)\<rparr>)
     \<and> length (db_comment s') = length (db_comment s) + 1"
proof -
  from assms(2) have id: "m_id media = obj_id"
    by (auto simp: find_one_def find_Some_iff)
  show ?thesis
    using assms
    by (simp add: add_comment_def Let_def insert_one_def id find_one_def find_update_one
        comments_count_of_def)
qed

text \<open>
  Claim C9. With the store configured, after any sequence of API requests every Media
  document of the store is still there with a \<open>comments_count\<close> that has not decreased,
  and the comments stored before are all still stored. A request other than add-comment
  leaves every \<open>comments_count\<close> field and the comment collection as they were. An
  add-comment on a stored Media succeeds, sets that document's \<open>comments_count\<close> to the
  value read plus one, and stores one comment more.
\<close>

theorem comments_count_never_decreases:
  "(\<exists>s'. run (Some s) reqs = Some s'
       \<and> counts_kept (db_media s) (db_media s')
       \<and> take (length (db_comment s)) (db_comment s') = db_comment s)
   \<and> ((\<forall>media_id p. r \<noteq> AddCommentReq media_id p) \<longrightarrow>
        comments_untouched s (snd (handle (Some s) new_id rnd r)))
   \<and> (\<forall>obj_id media. ObjectId_parse media_id = Some obj_id
          \<and> find_one (\<lambda>m. m_id m = obj_id) (db_media s) = Some media \<longrightarrow>
        (\<exists>s'. add_comment (Some s) new_id media_id p = (Inr (), Some s')
           \<and> find_one (\<lambda>m. m_id m = obj_id) (db_media s')
               = Some (media\<lparr>m_comments_count := Some (comments_count_of media + 1)\<rparr>)
           \<and> length (db_comment s') = length (db_comment s) + 1))"
  using run_counts_kept [of s reqs] handle_untouched [of r s new_id rnd]
    add_comment_plus_one [of media_id _ s _ new_id p]
  by blast

lemma run_example_requests: "run (Some store_media) example_requests = Some store_after"
  by (simp add: example_requests_def respond_def add_comment_def toggle_like_def parse_oid2
      store_media_def store_after_def empty_store_def find_one_def media1_def media2_def
      insert_one_def Let_def get_default_def comment1_def like_u1_def oid1_def oid2_def oid3_def)

theorem comments_count_never_decreases_witness:
  "run (Some store_media) example_requests = Some store_after
   \<and> counts_kept (db_media store_media) (db_media store_after)
   \<and> take (length (db_comment store_media)) (db_comment store_after) = db_comment store_media
   \<and> map comments_count_of (db_media store_media) = [0, 0]
   \<and> map comments_count_of (db_media store_after) = [1, 0]
   \<and> comments_untouched store_media
        (snd (handle (Some store_media) oid4 (\<lambda>i. 0)
           (ToggleLikeReq ''000000000000000000000002'' like_u1)))
   \<and> (\<exists>s'. add_comment (Some store_media) oid4 ''000000000000000000000002'' comment1
              = (Inr (), Some s')
         \<and> find_one (\<lambda>m. m_id m = oid2) (db_media s')
             = Some (media1\<lparr>m_comments_count := Some (comments_count_of media1 + 1)\<rparr>)
         \<and> length (db_comment s') = length (db_comment store_media) + 1)"
proof -
  note t = comments_count_never_decreases [where s = store_media and reqs = example_requests
      and r = "ToggleLikeReq ''000000000000000000000002'' like_u1" and new_id = oid4
      and rnd = "\<lambda>i. 0" and media_id = "''000000000000000000000002''" and p = comment1]
  from t [THEN conjunct1] have 1:
    "counts_kept (db_media store_media) (db_media store_after)
     \<and> take (length (db_comment store_media)) (db_comment store_after) = db_comment store_media"
    by (simp add: run_example_requests)
  have 2: "comments_untouched store_media
        (snd (handle (Some store_media) oid4 (\<lambda>i. 0)
           (ToggleLikeReq ''000000000000000000000002'' like_u1)))"
    by (rule t [THEN conjunct2, THEN conjunct1, THEN mp]) simp
  have f: "ObjectId_parse ''000000000000000000000002'' = Some oid2
      \<and> find_one (\<lambda>m. m_id m = oid2) (db_media store_media) = Some media1"
    by (simp add: parse_oid2 store_media_def find_one_def media1_def)
  have 3: "\<exists>s'. add_comment (Some store_media) oid4 ''000000000000000000000002'' comment1
              = (Inr (), Some s')
         \<and> find_one (\<lambda>m. m_id m = oid2) (db_media s')
             = Some (media1\<lparr>m_comments_count := Some (comments_count_of media1 + 1)\<rparr>)
         \<and> length (db_comment s') = length (db_comment store_media) + 1"
    by (rule t [THEN conjunct2, THEN conjunct2, THEN spec, THEN spec, THEN mp, OF f])
  have 4: "map comments_count_of (db_media store_media) = [0, 0]"
    "map comments_count_of (db_media store_after) = [1, 0]"
    by (simp_all add: store_media_def store_after_def media1_def media2_def comments_count_of_def
        get_default_def)
  from run_example_requests 1 2 3 4 show ?thesis by (intro conjI) (erule conjunct1 conjunct2 | assumption)+
qed

subsection \<open>Joining an event\<close>

lemma remdups_snoc: "remdups (xs @ [u]) = remdups (filter (\<lambda>x. x \<noteq> u) xs) @ [u]"
  by (induction xs) auto

lemma add_participant_twice:
  "add_participant (add_participant ps u) u = add_participant ps u"
proof -
  let ?r = "remdups (filter (\<lambda>x. x \<noteq> u) ps)"
  have "remdups ((?r @ [u]) @ [u]) = remdups (filter (\<lambda>x. x \<noteq> u) (?r @ [u])) @ [u]"
    by (rule remdups_snoc)
  also have "filter (\<lambda>x. x \<noteq> u) (?r @ [u]) = ?r"
    by (simp add: remdups_filter [symmetric])
  also have "remdups ?r = ?r" by simp
  finally show ?thesis
    by (simp only: add_participant_def remdups_snoc [of ps u])
qed

lemma set_add_participant: "set (add_participant ps u) = insert u (set ps)"
  by (simp add: add_participant_def)

lemma distinct_add_participant: "distinct (add_participant ps u)"
  by (simp add: add_participant_def)

lemma find_other_update_one_None:
  assumes "\<And>x. Q (g x) = Q x"
  shows "(List.find Q (update_one P g xs) = None) = (List.find Q xs = None)"
  by (induction xs) (simp_all add: assms)

lemma find_other_update_one_Some:
  assumes "\<And>x. Q (g x) = Q x" and "List.find Q xs = Some y"
  shows "List.find Q (update_one P g xs) = Some y \<or> List.find Q (update_one P g xs) = Some (g y)"
  using assms(2)
  by (induction xs) (simp_all add: assms(1) split: if_splits)

lemma update_one_twice:
  assumes "\<And>x. P (g x) = P x" and "\<And>x. g (g x) = g x"
  shows "update_one P g (update_one P g xs) = update_one P g xs"
  by (induction xs) (simp_all add: assms)

lemma find_snoc_match: "P x \<Longrightarrow> \<exists>y. List.find P (xs @ [x]) = Some y"
  by (induction xs) auto

lemma upsert_profile_twice:
  assumes "je_user_id p' = je_user_id p"
  shows "upsert_profile_on_join n' p' (upsert_profile_on_join n p ps) = upsert_profile_on_join n p ps"
proof (cases "find_one (\<lambda>q. u_user_id q = je_user_id p) ps")
  case None
  obtain d where d: "upsert_profile_on_join n p ps = ps @ [d]" "u_user_id d = je_user_id p"
    using None by (simp add: upsert_profile_on_join_def insert_one_def)
  from find_snoc_match [of "\<lambda>q. u_user_id q = je_user_id p" d ps] d(2)
  obtain y where "find_one (\<lambda>q. u_user_id q = je_user_id p) (ps @ [d]) = Some y"
    by (auto simp: find_one_def)
  then have "upsert_profile_on_join n' p' (ps @ [d]) = ps @ [d]"
    by (simp add: upsert_profile_on_join_def assms)
  with d show ?thesis by simp
next
  case (Some a)
  then show ?thesis
    by (simp add: upsert_profile_on_join_def assms)
qed

lemma find_by_code_update_one:
  assumes "\<And>x. e_code (g x) = e_code x" and "find_by_code c xs = Some y"
  shows "find_by_code c (update_one P g xs) = Some y \<or> find_by_code c (update_one P g xs) = Some (g y)"
proof (cases "List.find (\<lambda>e. e_code e = upper c) xs")
  case None
  then have "List.find (\<lambda>e. e_code e = upper c) (update_one P g xs) = None"
    by (simp add: find_other_update_one_None assms(1))
  moreover from None assms(2) have "List.find (\<lambda>e. e_code e = c) xs = Some y"
    by (simp add: find_by_code_def find_one_def)
  then have "List.find (\<lambda>e. e_code e = c) (update_one P g xs) = Some y
      \<or> List.find (\<lambda>e. e_code e = c) (update_one P g xs) = Some (g y)"
    by (intro find_other_update_one_Some) (simp_all add: assms(1))
  ultimately show ?thesis
    by (simp add: find_by_code_def find_one_def)
next
  case (Some a)
  with assms(2) have "List.find (\<lambda>e. e_code e = upper c) xs = Some y"
    by (simp add: find_by_code_def find_one_def)
  then have "List.find (\<lambda>e. e_code e = upper c) (update_one P g xs) = Some y
      \<or> List.find (\<lambda>e. e_code e = upper c) (update_one P g xs) = Some (g y)"
    by (intro find_other_update_one_Some) (simp_all add: assms(1))
  then show ?thesis
    by (auto simp: find_by_code_def find_one_def)
qed

text \<open>
  A second join under the same code and for the same user returns the same event and
  leaves the store as the first join left it.
\<close>

lemma join_event_again:
  assumes j: "join_event (Some s) n p = (Inr e1, db1)"
      and c: "je_code p' = je_code p" and u: "je_user_id p' = je_user_id p"
  shows "join_event db1 n' p' = (Inr e1, db1)"
    and "\<exists>ps. e_participants e1 = Some (add_participant ps (je_user_id p))"
proof -
  from j obtain event where ev: "find_by_code (je_code p) (db_event s) = Some event"
    by (auto simp: join_event_def split: option.splits)
  define ps where "ps = add_participant (get_default (e_participants event) []) (je_user_id p)"
  define g where "g = (\<lambda>e :: Event. e\<lparr>e_participants := Some ps\<rparr>)"
  define E where "E = update_one (\<lambda>e. e_id e = e_id event) g (db_event s)"
  define s2 where "s2 = s\<lparr>db_event := E,
      db_userprofile := upsert_profile_on_join n p (db_userprofile s)\<rparr>"
  from j ev have r: "find_one (\<lambda>e. e_id e = e_id event) E = Some e1" and db1: "db1 = Some s2"
    by (auto simp: join_event_def Let_def ps_def g_def E_def s2_def split: option.splits)
  have "List.find (\<lambda>e. e_id e = e_id event) E
      = map_option g (List.find (\<lambda>e. e_id e = e_id event) (db_event s))"
    unfolding E_def by (rule find_update_one) (simp add: g_def)
  with r obtain d where "e1 = g d" by (auto simp: find_one_def)
  then show "\<exists>ps. e_participants e1 = Some (add_participant ps (je_user_id p))"
    by (auto simp: g_def ps_def)
  from find_by_code_update_one [of g "je_code p" "db_event s" event "\<lambda>e. e_id e = e_id event"] ev
  have "find_by_code (je_code p) E = Some event \<or> find_by_code (je_code p) E = Some (g event)"
    by (simp add: E_def g_def)
  then obtain y where y: "find_by_code (je_code p) E = Some y" "y = event \<or> y = g event"
    by blast
  from y(2) have yid: "e_id y = e_id event"
    by (auto simp: g_def)
  from y(2) have yps: "add_participant (get_default (e_participants y) []) (je_user_id p) = ps"
    by (auto simp: g_def ps_def get_default_def add_participant_twice)
  have E2: "update_one (\<lambda>e. e_id e = e_id event) g E = E"
    unfolding E_def by (rule update_one_twice) (simp_all add: g_def)
  have U2: "upsert_profile_on_join n' p' (upsert_profile_on_join n p (db_userprofile s))
      = upsert_profile_on_join n p (db_userprofile s)"
    by (rule upsert_profile_twice [OF u])
  have "join_event (Some s2) n' p' = (Inr e1, Some s2)"
    using y(1) r
    by (simp add: join_event_def Let_def c u yid yps s2_def E2 [unfolded g_def] U2 g_def)
  with db1 show "join_event db1 n' p' = (Inr e1, db1)" by simp
qed

lemma upper_join1: "upper ''aaaaaa'' = ''AAAAAA''"
  by code_simp

text \<open>
  The first join: the event found by the code is answered under its identifier, with the
  user added to its participants, and the events under other identifiers are left alone.
\<close>

lemma filter_others_update_one:
  "(\<And>x. P (g x) = P x) \<Longrightarrow>
   filter (\<lambda>x. \<not> P x) (update_one P g xs) = filter (\<lambda>x. \<not> P x) xs"
  by (induction xs) simp_all

lemma find_by_code_in_set: "find_by_code c es = Some e \<Longrightarrow> e \<in> set es"
  by (auto simp: find_by_code_def find_one_def find_Some_iff split: option.splits)

lemma find_some_match: "x \<in> set xs \<Longrightarrow> P x \<Longrightarrow> \<exists>y. List.find P xs = Some y \<and> P y"
  by (induction xs) auto

lemma join_event_first:
  assumes ev: "find_by_code (je_code p) (db_event s) = Some event"
  shows "\<exists>e1 s1. join_event (Some s) n p = (Inr e1, Some s1)
      \<and> e_id e1 = e_id event
      \<and> e_participants e1
          = Some (add_participant (get_default (e_participants event) []) (je_user_id p))
      \<and> filter (\<lambda>e. e_id e \<noteq> e_id event) (db_event s1)
          = filter (\<lambda>e. e_id e \<noteq> e_id event) (db_event s)"
proof -
  define ps where "ps = add_participant (get_default (e_participants event) []) (je_user_id p)"
  define g where "g = (\<lambda>e :: Event. e\<lparr>e_participants := Some ps\<rparr>)"
  define E where "E = update_one (\<lambda>e. e_id e = e_id event) g (db_event s)"
  from find_some_match [OF find_by_code_in_set [OF ev], of "\<lambda>e. e_id e = e_id event"]
  obtain d where d: "List.find (\<lambda>e. e_id e = e_id event) (db_event s) = Some d"
      "e_id d = e_id event"
    by auto
  have "List.find (\<lambda>e. e_id e = e_id event) E
      = map_option g (List.find (\<lambda>e. e_id e = e_id event) (db_event s))"
    unfolding E_def by (rule find_update_one) (simp add: g_def)
  with d have f: "find_one (\<lambda>e. e_id e = e_id event) E = Some (g d)"
    by (simp add: find_one_def)
  have o: "filter (\<lambda>e. \<not> e_id e = e_id event) E
      = filter (\<lambda>e. \<not> e_id e = e_id event) (db_event s)"
    unfolding E_def by (rule filter_others_update_one) (simp add: g_def)
  from ev f have "join_event (Some s) n p
      = (Inr (g d), Some (s\<lparr>db_event := E,
           db_userprofile := upsert_profile_on_join n p (db_userprofile s)\<rparr>))"
    by (simp add: join_event_def Let_def ps_def g_def E_def)
  with d(2) o show ?thesis
    by (simp add: g_def ps_def)
qed

text \<open>
  Claim C2. A join under a code that finds an event succeeds, and the returned event has
  as its participant set that of the found event with the user added (so it is that same
  set when the user was in it already), listed without duplicates; events under other
  identifiers are not changed. A second join under the same code and for the same user
  succeeds as well and returns the event with the same participant set, a list without
  duplicates that has not grown, and every stored event keeps its participant set.
\<close>

theorem join_event_idempotent:
  assumes ev: "find_by_code (je_code p) (db_event s) = Some event"
      and c: "je_code p' = je_code p" and u: "je_user_id p' = je_user_id p"
  shows "\<exists>e1 s1. join_event (Some s) new_id p = (Inr e1, Some s1)
      \<and> e_id e1 = e_id event
      \<and> participant_set e1 = insert (je_user_id p) (participant_set event)
      \<and> distinct (get_default (e_participants e1) [])
      \<and> filter (\<lambda>e. e_id e \<noteq> e_id event) (db_event s1)
          = filter (\<lambda>e. e_id e \<noteq> e_id event) (db_event s)
      \<and> (\<exists>e2 db2. join_event (Some s1) new_id' p' = (Inr e2, db2)
            \<and> participant_set e2 = participant_set e1
            \<and> distinct (get_default (e_participants e2) [])
            \<and> length (get_default (e_participants e2) [])
                = length (get_default (e_participants e1) [])
            \<and> map_option (\<lambda>s. map participant_set (db_event s)) db2
                = Some (map participant_set (db_event s1)))"
proof -
  from join_event_first [OF ev, of new_id] obtain e1 s1
    where j: "join_event (Some s) new_id p = (Inr e1, Some s1)"
      and i: "e_id e1 = e_id event"
      and ps: "e_participants e1
          = Some (add_participant (get_default (e_participants event) []) (je_user_id p))"
      and o: "filter (\<lambda>e. e_id e \<noteq> e_id event) (db_event s1)
          = filter (\<lambda>e. e_id e \<noteq> e_id event) (db_event s)"
    by blast
  have 1: "participant_set e1 = insert (je_user_id p) (participant_set event)"
    by (simp add: participant_set_def ps get_default_def set_add_participant)
  have 2: "distinct (get_default (e_participants e1) [])"
    by (simp add: ps get_default_def distinct_add_participant)
  have 3: "join_event (Some s1) new_id' p' = (Inr e1, Some s1)"
    by (rule join_event_again(1) [OF j c u])
  from j i 1 2 o 3 show ?thesis by simp
qed

theorem join_event_idempotent_witness:
  "join_event (Some store_u0) oid2 join1 = (Inr event_u0_joined, Some store_u0_joined)
   \<and> participant_set event_u0 = {''u0''}
   \<and> participant_set event_u0_joined = {''u0'', ''u1''}
   \<and> join_event (Some store_u0_joined) oid3 join1 = (Inr event_u0_joined, Some store_u0_joined)
   \<and> (\<exists>e1 s1. join_event (Some store_u0) oid2 join1 = (Inr e1, Some s1)
      \<and> e_id e1 = e_id event_u0
      \<and> participant_set e1 = insert (je_user_id join1) (participant_set event_u0)
      \<and> distinct (get_default (e_participants e1) [])
      \<and> filter (\<lambda>e. e_id e \<noteq> e_id event_u0) (db_event s1)
          = filter (\<lambda>e. e_id e \<noteq> e_id event_u0) (db_event store_u0)
      \<and> (\<exists>e2 db2. join_event (Some s1) oid3 join1 = (Inr e2, db2)
            \<and> participant_set e2 = participant_set e1
            \<and> distinct (get_default (e_participants e2) [])
            \<and> length (get_default (e_participants e2) [])
                = length (get_default (e_participants e1) [])
            \<and> map_option (\<lambda>s. map participant_set (db_event s)) db2
                = Some (map participant_set (db_event s1))))"
proof -
  have f: "find_by_code (je_code join1) (db_event store_u0) = Some event_u0"
    by (simp add: find_by_code_def join1_def upper_join1 store_u0_def find_one_def
        event_u0_def event1_def)
  have a: "join_event (Some store_u0) oid2 join1 = (Inr event_u0_joined, Some store_u0_joined)"
    by (simp add: join_event_def find_by_code_def join1_def upper_join1 store_u0_def
        empty_store_def event1_def event_u0_def event_u0_joined_def store_u0_joined_def
        find_one_def Let_def get_default_def add_participant_def upsert_profile_on_join_def
        insert_one_def)
  have b: "join_event (Some store_u0_joined) oid3 join1
      = (Inr event_u0_joined, Some store_u0_joined)"
    by (simp add: join_event_def find_by_code_def join1_def upper_join1
        empty_store_def event1_def event_u0_joined_def store_u0_joined_def
        find_one_def Let_def get_default_def add_participant_def upsert_profile_on_join_def
        insert_one_def)
  have c: "participant_set event_u0 = {''u0''}"
    "participant_set event_u0_joined = {''u0'', ''u1''}"
    by (simp_all add: participant_set_def event_u0_def event_u0_joined_def get_default_def)
  note t = join_event_idempotent [OF f refl refl, of oid2 oid3]
  from a c b t show ?thesis by (intro conjI) (erule conjunct1 conjunct2 | assumption)+
qed

subsection \<open>Toggling a like twice\<close>

lemma find_None_filter: "List.find Q xs = None \<Longrightarrow> filter Q xs = []"
  by (induction xs) (auto split: if_splits)

lemma find_Some_filter: "List.find Q xs = Some r \<Longrightarrow> 0 < length (filter Q xs)"
  by (induction xs) (auto split: if_splits)

lemma delete_found_by_key:
  assumes "distinct (map f xs)" and "List.find Q xs = Some r"
  shows "length (filter Q (delete_one (\<lambda>l. f l = f r) xs)) = length (filter Q xs) - 1"
  using assms
proof (induction xs)
  case Nil
  then show ?case by simp
next
  case (Cons x xs)
  show ?case
  proof (cases "Q x")
    case True
    with Cons.prems show ?thesis by simp
  next
    case False
    with Cons.prems have f: "List.find Q xs = Some r" by simp
    then have "r \<in> set xs" by (auto simp: find_Some_iff)
    with Cons.prems(1) have "f x \<noteq> f r" by auto
    with False Cons.IH f Cons.prems(1) show ?thesis by simp
  qed
qed

lemma delete_one_snoc: "(\<And>x. x \<in> set xs \<Longrightarrow> \<not> P x) \<Longrightarrow> P y \<Longrightarrow> delete_one P (xs @ [y]) = xs"
  by (induction xs) auto

lemma find_snoc_only: "List.find Q xs = None \<Longrightarrow> Q y \<Longrightarrow> List.find Q (xs @ [y]) = Some y"
  by (induction xs) (auto split: if_splits)

lemma find_one_id: "find_one (\<lambda>m. m_id m = obj_id) ms = Some media \<Longrightarrow> m_id media = obj_id"
  by (auto simp: find_one_def find_Some_iff)

text \<open>One toggle on a stored Media, in the two cases of the source.\<close>

lemma toggle_like_insert:
  assumes "ObjectId_parse media_id = Some obj_id"
      and "find_one (\<lambda>m. m_id m = obj_id) (db_media s) = Some media"
      and "find_one (\<lambda>l. l_media_id l = media_id \<and> l_user_id l = tl_user_id p) (db_like s) = None"
  shows "toggle_like (Some s) new_id media_id p =
     (Inr (media\<lparr>m_likes_count := Some (max 0 (likes_count_of media + 1))\<rparr>),
      Some (s\<lparr>db_like := db_like s @ [\<lparr>l_id = new_id, l_media_id = media_id,
                                         l_user_id = tl_user_id p\<rparr>],
              db_media := update_one (\<lambda>m. m_id m = obj_id)
                 (\<lambda>m. m\<lparr>m_likes_count := Some (max 0 (likes_count_of media + 1))\<rparr>) (db_media s)\<rparr>))"
  using assms find_one_id [OF assms(2)]
  by (simp add: toggle_like_def Let_def insert_one_def likes_count_of_def find_one_def
      find_update_one)

lemma toggle_like_delete:
  assumes "ObjectId_parse media_id = Some obj_id"
      and "find_one (\<lambda>m. m_id m = obj_id) (db_media s) = Some media"
      and "find_one (\<lambda>l. l_media_id l = media_id \<and> l_user_id l = tl_user_id p) (db_like s) = Some r"
  shows "toggle_like (Some s) new_id media_id p =
     (Inr (media\<lparr>m_likes_count := Some (max 0 (likes_count_of media - 1))\<rparr>),
      Some (s\<lparr>db_like := delete_one (\<lambda>l. l_id l = l_id r) (db_like s),
              db_media := update_one (\<lambda>m. m_id m = obj_id)
                 (\<lambda>m. m\<lparr>m_likes_count := Some (max 0 (likes_count_of media - 1))\<rparr>) (db_media s)\<rparr>))"
  using assms find_one_id [OF assms(2)]
  by (simp add: toggle_like_def Let_def likes_count_of_def find_one_def find_update_one)

lemma filter_empty_find: "filter Q xs = [] \<Longrightarrow> List.find Q xs = None"
  by (induction xs) (auto split: if_splits)

text \<open>
  Claim C1, amended. Let the Media be stored, the identifiers of the Like rows be
  distinct and the generated one new, and let the user have at most one Like row on the
  media, the stored \<open>likes_count\<close> being at least the number of those rows (at least 1
  if the row exists, at least 0 if not). Then two toggles by the user succeed; the first
  removes the row and decrements the counter if the row exists, and otherwise inserts one
  row and increments the counter; after the second, the counter and the number of the
  user's rows are what they were.
\<close>

theorem toggle_like_twice:
  assumes parse: "ObjectId_parse media_id = Some obj_id"
      and media: "find_one (\<lambda>m. m_id m = obj_id) (db_media s) = Some media"
      and ids: "distinct (map l_id (db_like s))"
      and fresh: "new_id \<notin> set (map l_id (db_like s))"
      and one: "like_rows s media_id (tl_user_id p) \<le> 1"
      and cnt: "int (like_rows s media_id (tl_user_id p)) \<le> likes_count_of media"
  shows "\<exists>m1 s1 m2 s2.
      toggle_like (Some s) new_id media_id p = (Inr m1, Some s1)
    \<and> toggle_like (Some s1) new_id' media_id p = (Inr m2, Some s2)
    \<and> likes_count_of m1
        = likes_count_of media + (if like_rows s media_id (tl_user_id p) = 0 then 1 else - 1)
    \<and> like_rows s1 media_id (tl_user_id p) = 1 - like_rows s media_id (tl_user_id p)
    \<and> likes_count_of m2 = likes_count_of media
    \<and> like_rows s2 media_id (tl_user_id p) = like_rows s media_id (tl_user_id p)"
proof -
  let ?Q = "\<lambda>l. l_media_id l = media_id \<and> l_user_id l = tl_user_id p"
  let ?P = "\<lambda>m. m_id m = obj_id"
  let ?c = "likes_count_of media"
  have id: "m_id media = obj_id" by (rule find_one_id [OF media])
  show ?thesis
  proof (cases "List.find ?Q (db_like s)")
    case None
    then have rows: "like_rows s media_id (tl_user_id p) = 0"
      by (simp add: like_rows_def count_documents_def find_None_filter)
    with cnt have c: "0 \<le> ?c" by simp
    define new where "new = \<lparr>l_id = new_id, l_media_id = media_id, l_user_id = tl_user_id p\<rparr>"
    define m1 where "m1 = media\<lparr>m_likes_count := Some (max 0 (?c + 1))\<rparr>"
    define s1 where "s1 = s\<lparr>db_like := db_like s @ [new],
        db_media := update_one ?P (\<lambda>m. m\<lparr>m_likes_count := Some (max 0 (?c + 1))\<rparr>) (db_media s)\<rparr>"
    have t1: "toggle_like (Some s) new_id media_id p = (Inr m1, Some s1)"
      unfolding m1_def s1_def new_def
      by (rule toggle_like_insert [OF parse media]) (simp add: find_one_def None)
    have media1: "find_one ?P (db_media s1) = Some m1"
      using media by (simp add: s1_def m1_def find_one_def find_update_one)
    have like1: "find_one ?Q (db_like s1) = Some new"
      using find_snoc_only [OF None, of new] by (simp add: s1_def find_one_def new_def)
    define m2 where "m2 = m1\<lparr>m_likes_count := Some (max 0 (likes_count_of m1 - 1))\<rparr>"
    define s2 where "s2 = s1\<lparr>db_like := delete_one (\<lambda>l. l_id l = l_id new) (db_like s1),
        db_media := update_one ?P
          (\<lambda>m. m\<lparr>m_likes_count := Some (max 0 (likes_count_of m1 - 1))\<rparr>) (db_media s1)\<rparr>"
    have t2: "toggle_like (Some s1) new_id' media_id p = (Inr m2, Some s2)"
      unfolding m2_def s2_def by (rule toggle_like_delete [OF parse media1 like1])
    have "delete_one (\<lambda>l. l_id l = l_id new) (db_like s @ [new]) = db_like s"
      using fresh by (intro delete_one_snoc) (auto simp: new_def)
    then have likes2: "db_like s2 = db_like s"
      by (simp add: s2_def s1_def)
    have c1: "likes_count_of m1 = ?c + 1"
      using c by (simp add: m1_def likes_count_of_def get_default_def)
    have c2: "likes_count_of m2 = ?c"
      using c by (simp add: m2_def c1) (simp add: likes_count_of_def get_default_def)
    have r1: "like_rows s1 media_id (tl_user_id p) = 1"
      using rows by (simp add: like_rows_def count_documents_def s1_def new_def)
    have r2: "like_rows s2 media_id (tl_user_id p) = 0"
      using rows by (simp add: like_rows_def likes2)
    from t1 t2 c1 c2 r1 r2 rows show ?thesis by simp
  next
    case (Some r)
    from find_Some_filter [OF Some] one have rows: "like_rows s media_id (tl_user_id p) = 1"
      unfolding like_rows_def count_documents_def by linarith
    with cnt have c: "1 \<le> ?c" by simp
    define m1 where "m1 = media\<lparr>m_likes_count := Some (max 0 (?c - 1))\<rparr>"
    define s1 where "s1 = s\<lparr>db_like := delete_one (\<lambda>l. l_id l = l_id r) (db_like s),
        db_media := update_one ?P (\<lambda>m. m\<lparr>m_likes_count := Some (max 0 (?c - 1))\<rparr>) (db_media s)\<rparr>"
    have t1: "toggle_like (Some s) new_id media_id p = (Inr m1, Some s1)"
      unfolding m1_def s1_def
      by (rule toggle_like_delete [OF parse media]) (simp add: find_one_def Some)
    have media1: "find_one ?P (db_media s1) = Some m1"
      using media by (simp add: s1_def m1_def find_one_def find_update_one)
    from delete_found_by_key [OF ids Some] rows
    have r1: "like_rows s1 media_id (tl_user_id p) = 0"
      by (simp add: like_rows_def count_documents_def s1_def)
    then have like1: "find_one ?Q (db_like s1) = None"
      by (simp add: like_rows_def count_documents_def find_one_def filter_empty_find)
    define new where "new = \<lparr>l_id = new_id', l_media_id = media_id, l_user_id = tl_user_id p\<rparr>"
    define m2 where "m2 = m1\<lparr>m_likes_count := Some (max 0 (likes_count_of m1 + 1))\<rparr>"
    define s2 where "s2 = s1\<lparr>db_like := db_like s1 @ [new],
        db_media := update_one ?P
          (\<lambda>m. m\<lparr>m_likes_count := Some (max 0 (likes_count_of m1 + 1))\<rparr>) (db_media s1)\<rparr>"
    have t2: "toggle_like (Some s1) new_id' media_id p = (Inr m2, Some s2)"
      unfolding m2_def s2_def new_def by (rule toggle_like_insert [OF parse media1 like1])
    have c1: "likes_count_of m1 = ?c - 1"
      using c by (simp add: m1_def likes_count_of_def get_default_def)
    have c2: "likes_count_of m2 = ?c"
      using c by (simp add: m2_def c1) (simp add: likes_count_of_def get_default_def)
    have r2: "like_rows s2 media_id (tl_user_id p) = 1"
      using r1 by (simp add: like_rows_def count_documents_def s2_def new_def)
    from t1 t2 c1 c2 r1 r2 rows show ?thesis by simp
  qed
qed

text \<open>
  Claim C1 says this of every Media document. In \<open>store_drift\<close> the counter of
  \<open>media1\<close> is 0 and a Like of user u1 is stored: the first toggle deletes the row and
  floors the counter at 0, the second inserts a row and sets the counter to 1, not back
  to 0.
\<close>

theorem toggle_like_twice_drift:
  "find_one (\<lambda>m. m_id m = oid2) (db_media store_drift) = Some media1
   \<and> m_likes_count media1 = Some 0
   \<and> map_sum id m_likes_count
        (fst (toggle_like (snd (toggle_like (Some store_drift) oid5
                ''000000000000000000000002'' like_u1)) oid6
                ''000000000000000000000002'' like_u1))
      = Inr (Some 1)"
  by (simp add: toggle_like_def parse_oid2 store_drift_def store_media_def empty_store_def
      find_one_def media1_def media2_def like1_def like_u1_def insert_one_def Let_def
      get_default_def oid2_def oid3_def)

theorem toggle_like_twice_witness:
  "(\<exists>m1 s1 m2 s2.
      toggle_like (Some store_media) oid5 ''000000000000000000000002'' like_u1 = (Inr m1, Some s1)
    \<and> toggle_like (Some s1) oid6 ''000000000000000000000002'' like_u1 = (Inr m2, Some s2)
    \<and> likes_count_of m1 = 1 \<and> like_rows s1 ''000000000000000000000002'' ''u1'' = 1
    \<and> likes_count_of m2 = 0 \<and> like_rows s2 ''000000000000000000000002'' ''u1'' = 0)
   \<and> (\<exists>m1 s1 m2 s2.
      toggle_like (Some store_liked) oid5 ''000000000000000000000002'' like_u1 = (Inr m1, Some s1)
    \<and> toggle_like (Some s1) oid6 ''000000000000000000000002'' like_u1 = (Inr m2, Some s2)
    \<and> likes_count_of m1 = 0 \<and> like_rows s1 ''000000000000000000000002'' ''u1'' = 0
    \<and> likes_count_of m2 = 1 \<and> like_rows s2 ''000000000000000000000002'' ''u1'' = 1)"
proof -
  have u: "tl_user_id like_u1 = ''u1''" by (simp add: like_u1_def)
  have a: "find_one (\<lambda>m. m_id m = oid2) (db_media store_media) = Some media1"
    by (simp add: store_media_def find_one_def media1_def)
  have a0: "likes_count_of media1 = 0"
    by (simp add: likes_count_of_def media1_def get_default_def)
  have r0: "like_rows store_media ''000000000000000000000002'' ''u1'' = 0"
    by (simp add: like_rows_def count_documents_def store_media_def empty_store_def)
  have i0: "distinct (map l_id (db_like store_media))" "oid5 \<notin> set (map l_id (db_like store_media))"
    by (simp_all add: store_media_def empty_store_def)
  have b: "find_one (\<lambda>m. m_id m = oid2) (db_media store_liked)
      = Some (media1\<lparr>m_likes_count := Some 1\<rparr>)"
    by (simp add: store_liked_def find_one_def media1_def)
  have b0: "likes_count_of (media1\<lparr>m_likes_count := Some 1\<rparr>) = 1"
    by (simp add: likes_count_of_def get_default_def)
  have r1: "like_rows store_liked ''000000000000000000000002'' ''u1'' = 1"
    by (simp add: like_rows_def count_documents_def store_liked_def like1_def)
  have i1: "distinct (map l_id (db_like store_liked))" "oid5 \<notin> set (map l_id (db_like store_liked))"
    by (simp_all add: store_liked_def like1_def oid4_def oid5_def)
  have 1: "\<exists>m1 s1 m2 s2.
      toggle_like (Some store_media) oid5 ''000000000000000000000002'' like_u1 = (Inr m1, Some s1)
    \<and> toggle_like (Some s1) oid6 ''000000000000000000000002'' like_u1 = (Inr m2, Some s2)
    \<and> likes_count_of m1 = 1 \<and> like_rows s1 ''000000000000000000000002'' ''u1'' = 1
    \<and> likes_count_of m2 = 0 \<and> like_rows s2 ''000000000000000000000002'' ''u1'' = 0"
    using toggle_like_twice [OF parse_oid2 a i0, of like_u1 oid6] by (simp add: u a0 r0)
  have 2: "\<exists>m1 s1 m2 s2.
      toggle_like (Some store_liked) oid5 ''000000000000000000000002'' like_u1 = (Inr m1, Some s1)
    \<and> toggle_like (Some s1) oid6 ''000000000000000000000002'' like_u1 = (Inr m2, Some s2)
    \<and> likes_count_of m1 = 0 \<and> like_rows s1 ''000000000000000000000002'' ''u1'' = 0
    \<and> likes_count_of m2 = 1 \<and> like_rows s2 ''000000000000000000000002'' ''u1'' = 1"
    using toggle_like_twice [OF parse_oid2 b i1, of like_u1 oid6] by (simp add: u b0 r1)
  from 1 2 show ?thesis by (rule conjI)
qed

subsection \<open>Stores reached through the API\<close>

text \<open>
  The hypotheses of the theorem on two toggles are no accident of the examples: a store
  in which the counters agree with the Like rows stays so under every request whose
  generated identifier is new, and the empty store is such a store.
\<close>

lemma set_update_one_found:
  assumes "distinct (map f xs)" and "List.find (\<lambda>x. f x = k) xs = Some m0"
      and "\<And>x. f (g x) = f x"
  shows "set (update_one (\<lambda>x. f x = k) g xs) = insert (g m0) (set xs - {m0})"
    and "\<And>x. x \<in> set xs - {m0} \<Longrightarrow> f x \<noteq> k"
proof -
  show "set (update_one (\<lambda>x. f x = k) g xs) = insert (g m0) (set xs - {m0})"
    using assms(1,2)
  proof (induction xs)
    case Nil
    then show ?case by simp
  next
    case (Cons x xs)
    show ?case
    proof (cases "f x = k")
      case True
      with Cons.prems have "m0 = x" "x \<notin> set xs" by auto
      with True show ?thesis by auto
    next
      case False
      with Cons.prems have f: "List.find (\<lambda>x. f x = k) xs = Some m0" and d: "distinct (map f xs)"
        by auto
      from f have "f m0 = k" by (auto simp: find_Some_iff)
      with False have "x \<noteq> m0" by auto
      with False Cons.IH [OF d f] show ?thesis by auto
    qed
  qed
  fix x assume x: "x \<in> set xs - {m0}"
  from assms(2) have m0: "m0 \<in> set xs" "f m0 = k"
    by (auto simp: find_Some_iff)
  with x assms(1) show "f x \<noteq> k"
    by (metis DiffE distinct_map inj_onD insertI1)
qed

lemma like_refs_snoc:
  "like_refs (ls @ [l]) k = like_refs ls k + (if ObjectId_parse (l_media_id l) = Some k then 1 else 0)"
  by (simp add: like_refs_def)

lemma delete_one_by_key:
  assumes "distinct (map f xs)" and "r \<in> set xs"
  shows "delete_one (\<lambda>l. f l = f r) xs = remove1 r xs"
  using assms
proof (induction xs)
  case Nil
  then show ?case by simp
next
  case (Cons x xs)
  then show ?case by (cases "x = r") (auto simp: image_iff)
qed

lemma like_refs_remove1:
  assumes "r \<in> set ls"
  shows "like_refs ls k
     = like_refs (remove1 r ls) k + (if ObjectId_parse (l_media_id r) = Some k then 1 else 0)"
  using assms by (induction ls) (auto simp: like_refs_def)

lemma distinct_map_remove1: "distinct (map f xs) \<Longrightarrow> distinct (map f (remove1 r xs))"
proof (induction xs)
  case Nil
  then show ?case by simp
next
  case (Cons x xs)
  have "set (remove1 r xs) \<subseteq> set xs" by (rule set_remove1_subset)
  with Cons show ?case by auto
qed

lemma agree_insert:
  assumes a: "agree ms ls"
      and media: "List.find (\<lambda>m. m_id m = obj_id) ms = Some media"
      and parse: "ObjectId_parse media_id = Some obj_id"
      and no: "List.find (\<lambda>l. l_media_id l = media_id \<and> l_user_id l = u) ls = None"
      and fresh: "new_id \<notin> set (map l_id ls)"
  shows "agree (update_one (\<lambda>m. m_id m = obj_id)
                  (\<lambda>m. m\<lparr>m_likes_count := Some (max 0 (get_default (m_likes_count media) 0 + 1))\<rparr>) ms)
               (ls @ [\<lparr>l_id = new_id, l_media_id = media_id, l_user_id = u\<rparr>])"
proof -
  let ?g = "\<lambda>m. m\<lparr>m_likes_count := Some (max 0 (get_default (m_likes_count media) 0 + 1))\<rparr>"
  let ?ms = "update_one (\<lambda>m. m_id m = obj_id) ?g ms"
  let ?new = "\<lparr>l_id = new_id, l_media_id = media_id, l_user_id = u\<rparr>"
  from a have d: "distinct (map m_id ms)" "distinct (map l_id ls)"
      "distinct (map (\<lambda>l. (l_media_id l, l_user_id l)) ls)"
    and refs: "\<And>l. l \<in> set ls \<Longrightarrow> ObjectId_parse (l_media_id l) \<in> Some ` set (map m_id ms)"
    and cnt: "\<And>m. m \<in> set ms \<Longrightarrow> m_likes_count m = Some (int (like_refs ls (m_id m)))"
    by (auto simp: agree_def list_all_iff)
  from media have m: "media \<in> set ms" "m_id media = obj_id"
    by (auto simp: find_Some_iff)
  have ids: "map m_id ?ms = map m_id ms" by (rule map_update_one) simp
  have set_ms: "set ?ms = insert (?g media) (set ms - {media})"
    and other: "\<And>x. x \<in> set ms - {media} \<Longrightarrow> m_id x \<noteq> obj_id"
    using set_update_one_found [OF d(1) media, of ?g] by simp_all
  have c: "get_default (m_likes_count media) 0 = int (like_refs ls obj_id)"
    using cnt [OF m(1)] m(2) by (simp add: get_default_def)
  from no have nolike: "\<And>l. l \<in> set ls \<Longrightarrow> \<not> (l_media_id l = media_id \<and> l_user_id l = u)"
    by (simp add: find_None_iff)
  have 1: "distinct (map m_id ?ms)" using d(1) ids by simp
  have 2: "distinct (map l_id (ls @ [?new]))" using d(2) fresh by simp
  have 3: "distinct (map (\<lambda>l. (l_media_id l, l_user_id l)) (ls @ [?new]))"
    using d(3) nolike by auto
  have "map (\<lambda>m. Some (m_id m)) ?ms = map Some (map m_id ?ms)" by simp
  then have ids': "set (map (\<lambda>m. Some (m_id m)) ?ms) = Some ` set (map m_id ms)"
    by (simp only: ids set_map)
  have 4: "list_all (\<lambda>l. ObjectId_parse (l_media_id l) \<in> set (map (\<lambda>m. Some (m_id m)) ?ms))
      (ls @ [?new])"
    unfolding ids' using refs m parse by (auto simp: list_all_iff)
  have 5: "list_all (\<lambda>m. m_likes_count m = Some (int (like_refs (ls @ [?new]) (m_id m)))) ?ms"
    unfolding list_all_iff set_ms
  proof (intro ballI)
    fix x assume "x \<in> insert (?g media) (set ms - {media})"
    then consider "x = ?g media" | "x \<in> set ms - {media}" by blast
    then show "m_likes_count x = Some (int (like_refs (ls @ [?new]) (m_id x)))"
    proof cases
      case 1
      then show ?thesis by (simp add: like_refs_snoc parse m(2) c)
    next
      case 2
      with other [OF 2] cnt [of x] show ?thesis
        by (simp add: like_refs_snoc parse)
    qed
  qed
  from 1 2 3 4 5 show ?thesis by (simp add: agree_def)
qed

lemma agree_delete:
  assumes a: "agree ms ls"
      and media: "List.find (\<lambda>m. m_id m = obj_id) ms = Some media"
      and parse: "ObjectId_parse media_id = Some obj_id"
      and row: "List.find (\<lambda>l. l_media_id l = media_id \<and> l_user_id l = u) ls = Some r"
  shows "agree (update_one (\<lambda>m. m_id m = obj_id)
                  (\<lambda>m. m\<lparr>m_likes_count := Some (max 0 (get_default (m_likes_count media) 0 - 1))\<rparr>) ms)
               (delete_one (\<lambda>l. l_id l = l_id r) ls)"
proof -
  let ?g = "\<lambda>m. m\<lparr>m_likes_count := Some (max 0 (get_default (m_likes_count media) 0 - 1))\<rparr>"
  let ?ms = "update_one (\<lambda>m. m_id m = obj_id) ?g ms"
  from a have d: "distinct (map m_id ms)" "distinct (map l_id ls)"
      "distinct (map (\<lambda>l. (l_media_id l, l_user_id l)) ls)"
    and refs: "\<And>l. l \<in> set ls \<Longrightarrow> ObjectId_parse (l_media_id l) \<in> Some ` set (map m_id ms)"
    and cnt: "\<And>m. m \<in> set ms \<Longrightarrow> m_likes_count m = Some (int (like_refs ls (m_id m)))"
    by (auto simp: agree_def list_all_iff)
  from media have m: "media \<in> set ms" "m_id media = obj_id"
    by (auto simp: find_Some_iff)
  from row have r: "r \<in> set ls" "l_media_id r = media_id"
    by (auto simp: find_Some_iff)
  have del: "delete_one (\<lambda>l. l_id l = l_id r) ls = remove1 r ls"
    by (rule delete_one_by_key [OF d(2) r(1)])
  have sub: "set (remove1 r ls) \<subseteq> set ls" by (rule set_remove1_subset)
  have ids: "map m_id ?ms = map m_id ms" by (rule map_update_one) simp
  have "map (\<lambda>m. Some (m_id m)) ?ms = map Some (map m_id ?ms)" by simp
  then have ids': "set (map (\<lambda>m. Some (m_id m)) ?ms) = Some ` set (map m_id ms)"
    by (simp only: ids set_map)
  have set_ms: "set ?ms = insert (?g media) (set ms - {media})"
    and other: "\<And>x. x \<in> set ms - {media} \<Longrightarrow> m_id x \<noteq> obj_id"
    using set_update_one_found [OF d(1) media, of ?g] by simp_all
  have lr: "like_refs ls k
      = like_refs (remove1 r ls) k + (if obj_id = k then 1 else 0)" for k
    using like_refs_remove1 [OF r(1), of k] by (simp add: r(2) parse)
  have c: "get_default (m_likes_count media) 0 = int (like_refs (remove1 r ls) obj_id) + 1"
    using cnt [OF m(1)] m(2) lr [of obj_id] by (simp add: get_default_def)
  have 1: "distinct (map m_id ?ms)" using d(1) ids by simp
  have 2: "distinct (map l_id (remove1 r ls))" by (rule distinct_map_remove1 [OF d(2)])
  have 3: "distinct (map (\<lambda>l. (l_media_id l, l_user_id l)) (remove1 r ls))"
    by (rule distinct_map_remove1 [OF d(3)])
  have 4: "list_all (\<lambda>l. ObjectId_parse (l_media_id l) \<in> set (map (\<lambda>m. Some (m_id m)) ?ms))
      (remove1 r ls)"
    unfolding ids' using refs sub by (auto simp: list_all_iff)
  have 5: "list_all (\<lambda>m. m_likes_count m = Some (int (like_refs (remove1 r ls) (m_id m)))) ?ms"
    unfolding list_all_iff set_ms
  proof (intro ballI)
    fix x assume "x \<in> insert (?g media) (set ms - {media})"
    then consider "x = ?g media" | "x \<in> set ms - {media}" by blast
    then show "m_likes_count x = Some (int (like_refs (remove1 r ls) (m_id x)))"
    proof cases
      case 1
      then show ?thesis by (simp add: m(2) c)
    next
      case 2
      with other [OF 2] cnt [of x] lr [of "m_id x"] show ?thesis
        by simp
    qed
  qed
  from 1 2 3 4 5 show ?thesis by (simp add: agree_def del)
qed

lemma agree_same_ids_likes:
  assumes "agree ms ls" and "map m_id ms' = map m_id ms"
      and "map m_likes_count ms' = map m_likes_count ms"
  shows "agree ms' ls"
proof -
  have l: "length ms' = length ms" using assms(2) by (metis length_map)
  have "map (\<lambda>m. Some (m_id m)) ms' = map Some (map m_id ms')" by simp
  also have "\<dots> = map Some (map m_id ms)" by (simp only: assms(2))
  finally have s: "map (\<lambda>m. Some (m_id m)) ms' = map (\<lambda>m. Some (m_id m)) ms" by simp
  have "list_all (\<lambda>m. m_likes_count m = Some (int (like_refs ls (m_id m)))) ms'"
    unfolding list_all_length
  proof (intro allI impI)
    fix n assume n: "n < length ms'"
    with l assms(1) have "m_likes_count (ms ! n) = Some (int (like_refs ls (m_id (ms ! n))))"
      by (simp add: agree_def list_all_length)
    moreover from n l assms(2) have "m_id (ms' ! n) = m_id (ms ! n)" by (metis nth_map)
    moreover from n l assms(3) have "m_likes_count (ms' ! n) = m_likes_count (ms ! n)"
      by (metis nth_map)
    ultimately show "m_likes_count (ms' ! n) = Some (int (like_refs ls (m_id (ms' ! n))))"
      by simp
  qed
  with assms(1) show ?thesis
    by (simp add: agree_def assms(2) s)
qed

lemma like_refs_unreferenced:
  assumes "list_all (\<lambda>l. ObjectId_parse (l_media_id l) \<in> set (map (\<lambda>m. Some (m_id m)) ms)) ls"
      and "k \<notin> set (map m_id ms)"
  shows "like_refs ls k = 0"
proof -
  have "ObjectId_parse (l_media_id l) \<noteq> Some k" if "l \<in> set ls" for l
  proof
    assume e: "ObjectId_parse (l_media_id l) = Some k"
    from assms(1) that have "ObjectId_parse (l_media_id l) \<in> (\<lambda>m. Some (m_id m)) ` set ms"
      by (simp add: list_all_iff)
    with e obtain m where "m \<in> set ms" "Some k = Some (m_id m)" by auto
    with assms(2) show False by auto
  qed
  then show ?thesis by (simp add: like_refs_def filter_empty_conv)
qed

lemma agree_upload:
  assumes a: "agree ms ls" and fresh: "new_id \<notin> set (map m_id ms)"
      and new: "m_id m = new_id" "m_likes_count m = Some 0"
  shows "agree (ms @ [m]) ls"
proof -
  from a have refs: "list_all (\<lambda>l. ObjectId_parse (l_media_id l) \<in> set (map (\<lambda>m. Some (m_id m)) ms)) ls"
    by (simp add: agree_def)
  from like_refs_unreferenced [OF refs fresh] have z: "like_refs ls new_id = 0" .
  from refs have "list_all (\<lambda>l. ObjectId_parse (l_media_id l)
      \<in> set (map (\<lambda>m. Some (m_id m)) (ms @ [m]))) ls"
    by (auto simp: list_all_iff)
  with a fresh new z show ?thesis
    by (simp add: agree_def)
qed

lemma toggle_like_consistent:
  assumes c: "consistent s" and f: "fresh new_id s"
  shows "\<exists>s'. snd (toggle_like (Some s) new_id media_id p) = Some s' \<and> consistent s'"
proof (cases "ObjectId_parse media_id")
  case None
  with c show ?thesis by (simp add: toggle_like_def)
next
  case (Some obj_id)
  note parse = this
  show ?thesis
  proof (cases "find_one (\<lambda>m. m_id m = obj_id) (db_media s)")
    case None
    with c parse show ?thesis by (simp add: toggle_like_def)
  next
    case (Some media)
    note media = this
    show ?thesis
    proof (cases "find_one (\<lambda>l. l_media_id l = media_id \<and> l_user_id l = tl_user_id p) (db_like s)")
      case None
      from f have "new_id \<notin> set (map l_id (db_like s))" by (simp add: fresh_def)
      from agree_insert [OF c [unfolded consistent_def] media [unfolded find_one_def] parse
          None [unfolded find_one_def] this]
      show ?thesis
        by (simp add: toggle_like_insert [OF parse media None] consistent_def likes_count_of_def)
    next
      case (Some r)
      from agree_delete [OF c [unfolded consistent_def] media [unfolded find_one_def] parse
          Some [unfolded find_one_def]]
      show ?thesis
        by (simp add: toggle_like_delete [OF parse media Some] consistent_def likes_count_of_def)
    qed
  qed
qed

lemma upload_media_consistent:
  assumes c: "consistent s" and f: "fresh new_id s"
  shows "\<exists>s'. snd (upload_media (Some s) new_id p) = Some s' \<and> consistent s'"
proof -
  from f have n: "new_id \<notin> set (map m_id (db_media s))" by (simp add: fresh_def)
  show ?thesis
    using c agree_upload [OF c [unfolded consistent_def] n]
    by (simp add: upload_media_def Let_def insert_one_def consistent_def split: option.splits)
qed

lemma add_comment_consistent:
  assumes c: "consistent s"
  shows "\<exists>s'. snd (add_comment (Some s) new_id media_id p) = Some s' \<and> consistent s'"
  using c agree_same_ids_likes [OF c [unfolded consistent_def]]
  by (simp add: add_comment_def Let_def consistent_def map_update_one split: option.splits)

lemma handle_likes_untouched:
  assumes "\<And>p. r \<noteq> UploadMediaReq p" and "\<And>i p. r \<noteq> ToggleLikeReq i p"
      and "\<And>i p. r \<noteq> AddCommentReq i p"
  shows "likes_untouched s (snd (handle (Some s) new_id rnd r))"
proof (cases r)
  case (UploadMediaReq p) with assms(1) show ?thesis by blast
next
  case (ToggleLikeReq i p) with assms(2) show ?thesis by blast
next
  case (AddCommentReq i p) with assms(3) show ?thesis by blast
next
  case (JoinEventReq p)
  then show ?thesis
    by (simp add: respond_def likes_untouched_def join_event_def Let_def split: option.splits)
next
  case (UpdateUserReq u p)
  then show ?thesis
    by (simp add: respond_def likes_untouched_def update_user_def Let_def split: option.splits)
qed (simp_all add: respond_def likes_untouched_def read_root_def hello_def test_database_def
      create_event_def explore_events_def get_event_by_code_def get_event_def
      list_media_for_event_def list_comments_def get_user_def Let_def split: option.splits)

lemma handle_consistent:
  assumes c: "consistent s" and f: "fresh new_id s"
  shows "\<exists>s'. snd (handle (Some s) new_id rnd r) = Some s' \<and> consistent s'"
proof -
  consider (u) p where "r = UploadMediaReq p" | (t) i p where "r = ToggleLikeReq i p"
    | (a) i p where "r = AddCommentReq i p"
    | (o) "\<And>p. r \<noteq> UploadMediaReq p" "\<And>i p. r \<noteq> ToggleLikeReq i p"
        "\<And>i p. r \<noteq> AddCommentReq i p"
    by blast
  then show ?thesis
  proof cases
    case u
    with upload_media_consistent [OF c f] show ?thesis by (simp add: respond_def)
  next
    case t
    with toggle_like_consistent [OF c f] show ?thesis by (simp add: respond_def)
  next
    case a
    with add_comment_consistent [OF c] show ?thesis by (simp add: respond_def)
  next
    case o
    from handle_likes_untouched [OF o, of s new_id rnd] c show ?thesis
      by (auto simp: likes_untouched_def consistent_def split: option.splits)
  qed
qed

lemma run_consistent:
  "consistent s \<Longrightarrow> fresh_run (Some s) reqs \<Longrightarrow> \<exists>s'. run (Some s) reqs = Some s' \<and> consistent s'"
proof (induction reqs arbitrary: s)
  case Nil
  then show ?case by simp
next
  case (Cons q reqs)
  obtain new_id rnd r where q: "q = (new_id, rnd, r)" by (cases q)
  from Cons.prems(2) have f: "fresh new_id s"
    and fr: "fresh_run (snd (handle (Some s) new_id rnd r)) reqs"
    by (simp_all add: q)
  from handle_consistent [OF Cons.prems(1) f, of rnd r] obtain s1
    where s1: "snd (handle (Some s) new_id rnd r) = Some s1" "consistent s1"
    by blast
  from Cons.IH [OF s1(2)] fr s1(1) show ?case
    by (simp add: q)
qed

lemma consistent_empty_store: "consistent empty_store"
  by (simp add: consistent_def agree_def empty_store_def)

lemma length_filter_key_le_1:
  "distinct (map f xs) \<Longrightarrow> length (filter (\<lambda>x. f x = v) xs) \<le> 1"
proof (induction xs)
  case Nil
  then show ?case by simp
next
  case (Cons x xs)
  show ?case
  proof (cases "f x = v")
    case True
    with Cons.prems have "v \<notin> f ` set xs" by simp
    then have "filter (\<lambda>x. f x = v) xs = []"
      by (auto simp: filter_empty_conv)
    with True show ?thesis by simp
  next
    case False
    with Cons show ?thesis by simp
  qed
qed

lemma length_filter_mono:
  "(\<And>x. x \<in> set xs \<Longrightarrow> P x \<Longrightarrow> Q x) \<Longrightarrow> length (filter P xs) \<le> length (filter Q xs)"
  by (induction xs) auto

text \<open>
  A consistent store meets the hypotheses of the theorem on two toggles; so does every
  store reached from the empty one by requests whose generated identifiers are new.
\<close>

lemma consistent_toggle_hypotheses:
  assumes c: "consistent s"
      and parse: "ObjectId_parse media_id = Some obj_id"
      and media: "find_one (\<lambda>m. m_id m = obj_id) (db_media s) = Some media"
  shows "distinct (map l_id (db_like s))"
    and "like_rows s media_id user_id \<le> 1"
    and "int (like_rows s media_id user_id) \<le> likes_count_of media"
proof -
  from c show "distinct (map l_id (db_like s))"
    by (simp add: consistent_def agree_def)
  from c have "distinct (map (\<lambda>l. (l_media_id l, l_user_id l)) (db_like s))"
    by (simp add: consistent_def agree_def)
  from length_filter_key_le_1 [OF this, of "(media_id, user_id)"]
  show "like_rows s media_id user_id \<le> 1"
    by (simp add: like_rows_def count_documents_def)
  from media have m: "media \<in> set (db_media s)" "m_id media = obj_id"
    by (auto simp: find_one_def find_Some_iff)
  with c have "likes_count_of media = int (like_refs (db_like s) obj_id)"
    by (auto simp: consistent_def agree_def list_all_iff likes_count_of_def get_default_def)
  moreover have "like_rows s media_id user_id \<le> like_refs (db_like s) obj_id"
    unfolding like_rows_def count_documents_def like_refs_def
    by (rule length_filter_mono) (simp add: parse)
  ultimately show "int (like_rows s media_id user_id) \<le> likes_count_of media"
    by simp
qed

lemma reachable_toggle_hypotheses:
  assumes "fresh_run (Some empty_store) reqs"
      and "run (Some empty_store) reqs = Some s"
      and "ObjectId_parse media_id = Some obj_id"
      and "find_one (\<lambda>m. m_id m = obj_id) (db_media s) = Some media"
  shows "distinct (map l_id (db_like s))"
    and "like_rows s media_id user_id \<le> 1"
    and "int (like_rows s media_id user_id) \<le> likes_count_of media"
proof -
  from run_consistent [OF consistent_empty_store assms(1)] assms(2) have "consistent s"
    by simp
  from consistent_toggle_hypotheses [OF this assms(3,4)]
  show "distinct (map l_id (db_like s))"
    and "like_rows s media_id user_id \<le> 1"
    and "int (like_rows s media_id user_id) \<le> likes_count_of media"
    by blast+
qed

end
